theory Spec2Isabelle
  imports Complex_Main "HOL-Library.Sublist"
begin

section \<open>Values of Go's empty interface\<close>

text \<open>
  The handlers walk over \<^verbatim>\<open>interface{}\<close> values. A value decoded by encoding/json
  is nil, a bool, a float64, a string, a \<^verbatim>\<open>[]interface{}\<close> or a
  \<^verbatim>\<open>map[string]interface{}\<close>; the code itself also stores Go ints (the zero token
  counters, \<^verbatim>\<open>len(...)\<close>) and one \<^verbatim>\<open>[]string{}\<close>. One constructor per dynamic
  type. The carrier \<open>'f\<close> of float64 is left open: no function below computes with it.
\<close>

datatype 'f gval =
    GNil
  | GBool bool
  | GFloat64 'f
  | GInt int
  | GString string
  | GStrings "string list"
  | GSlice "'f gval list"
  | GMap "string \<Rightarrow> 'f gval option"

type_synonym 'f gmap = "string \<Rightarrow> 'f gval option"

text \<open>\<^verbatim>\<open>m[k]\<close> on a Go map: the zero value (nil) when the key is absent.\<close>

definition index :: "'f gmap \<Rightarrow> string \<Rightarrow> 'f gval" where
  "index m k = (case m k of None \<Rightarrow> GNil | Some v \<Rightarrow> v)"

text \<open>The comma-ok type assertions \<^verbatim>\<open>v.(T)\<close>: \<open>None\<close> when the dynamic type is not \<open>T\<close>.\<close>

fun asMap :: "'f gval \<Rightarrow> 'f gmap option" where
  "asMap (GMap m) = Some m"
| "asMap _ = None"

fun asSlice :: "'f gval \<Rightarrow> 'f gval list option" where
  "asSlice (GSlice xs) = Some xs"
| "asSlice _ = None"

fun asString :: "'f gval \<Rightarrow> string option" where
  "asString (GString s) = Some s"
| "asString _ = None"

fun asInt :: "'f gval \<Rightarrow> int option" where
  "asInt (GInt i) = Some i"
| "asInt _ = None"

section \<open>Response Transformer\<close>

subsection \<open>Helpers of the transformation\<close>

definition extractModelName :: "'f gmap \<Rightarrow> 'f gval" where
  "extractModelName msgMap =
     (case asMap (index msgMap ''response_metadata'') of
        Some responseMetadata \<Rightarrow>
          (case responseMetadata ''model_name'' of Some modelName \<Rightarrow> modelName | None \<Rightarrow> GNil)
      | None \<Rightarrow> GNil)"

definition extractFinishReason :: "'f gmap \<Rightarrow> 'f gval" where
  "extractFinishReason msgMap =
     (case asMap (index msgMap ''response_metadata'') of
        Some responseMetadata \<Rightarrow>
          (case responseMetadata ''finish_reason'' of Some finishReason \<Rightarrow> finishReason | None \<Rightarrow> GNil)
      | None \<Rightarrow> GNil)"

definition extractAvgLogprobs :: "'f gmap \<Rightarrow> 'f gval" where
  "extractAvgLogprobs msgMap =
     (case asMap (index msgMap ''response_metadata'') of
        Some responseMetadata \<Rightarrow>
          (case responseMetadata ''avg_logprobs'' of Some avgLogprobs \<Rightarrow> avgLogprobs | None \<Rightarrow> GNil)
      | None \<Rightarrow> GNil)"

text \<open>
  \<^verbatim>\<open>extractUsageMetadata\<close>, statement by statement. \<open>f64\<close> is Go's conversion
  \<^verbatim>\<open>float64(i)\<close> of an int. Each \<open>setIfInt\<close> is one of the five guarded assignments
  \<^verbatim>\<open>if x, exists := src[k]; exists { if i, ok := x.(int); ok { result[dst] = float64(i) } }\<close>.
\<close>

definition setIfInt :: "(int \<Rightarrow> 'f) \<Rightarrow> 'f gmap \<Rightarrow> string \<Rightarrow> string \<Rightarrow> 'f gmap \<Rightarrow> 'f gmap" where
  "setIfInt f64 src k dst result =
     (case src k of
        Some x \<Rightarrow> (case asInt x of Some i \<Rightarrow> result(dst \<mapsto> GFloat64 (f64 i)) | None \<Rightarrow> result)
      | None \<Rightarrow> result)"

definition extractUsageMetadata :: "(int \<Rightarrow> 'f) \<Rightarrow> 'f gmap \<Rightarrow> 'f gval" where
  "extractUsageMetadata f64 msgMap =
     (case asMap (index msgMap ''response_metadata'') of
        Some responseMetadata \<Rightarrow>
          (case responseMetadata ''usage_metadata'' of
             Some usageMetadata \<Rightarrow>
               (case asMap usageMetadata of
                  Some usageMap \<Rightarrow>
                    (let result0 = [''prompt_token_count'' \<mapsto> index usageMap ''input_tokens'',
                                    ''candidates_token_count'' \<mapsto> index usageMap ''output_tokens'',
                                    ''total_token_count'' \<mapsto> index usageMap ''total_tokens''];
                         result1 = (case asMap (index usageMap ''output_token_details'') of
                                      Some outputDetails \<Rightarrow>
                                        setIfInt f64 outputDetails ''reasoning'' ''thoughts_token_count'' result0
                                    | None \<Rightarrow> result0);
                         result2 = (case asMap (index usageMap ''input_token_details'') of
                                      Some inputDetails \<Rightarrow>
                                        setIfInt f64 inputDetails ''cache_read'' ''cached_content_token_count'' result1
                                    | None \<Rightarrow> result1);
                         result3 = setIfInt f64 usageMap ''input_tokens'' ''prompt_token_count'' result2;
                         result4 = setIfInt f64 usageMap ''output_tokens'' ''candidates_token_count'' result3;
                         result5 = setIfInt f64 usageMap ''total_tokens'' ''total_token_count'' result4
                     in GMap result5)
                | None \<Rightarrow> GNil)
           | None \<Rightarrow> GNil)
      | None \<Rightarrow> GNil)"

definition mapMessageType :: "'f gmap \<Rightarrow> string" where
  "mapMessageType msgMap =
     (case asString (index msgMap ''type'') of
        None \<Rightarrow> ''user_message''
      | Some msgType \<Rightarrow>
          if msgType = ''human'' then ''user_message''
          else if msgType = ''ai'' then
            (case asSlice (index msgMap ''tool_calls'') of
               Some toolCalls \<Rightarrow>
                 if length toolCalls > 0 then ''tool_call_message'' else ''assistant_message''
             | None \<Rightarrow> ''assistant_message'')
          else if msgType = ''tool'' then ''tool_return_message''
          else ''user_message'')"

subsection \<open>Step identifiers\<close>

text \<open>
  \<^verbatim>\<open>generateStepID\<close> prints 16 random bytes as five dash-joined groups of lowercase
  hexadecimal digits (\<^verbatim>\<open>%x\<close> on a byte slice: two digits per byte). The bytes come from
  crypto/rand; the argument \<open>b\<close> is the slice after \<^verbatim>\<open>rand.Read(b)\<close>, bytes as
  naturals below 256.
\<close>

definition hexDigit :: "nat \<Rightarrow> char" where
  "hexDigit n = ''0123456789abcdef'' ! (n mod 16)"

definition hexBytes :: "nat list \<Rightarrow> string" where
  "hexBytes bs = concat (map (\<lambda>b. [hexDigit (b div 16), hexDigit b]) bs)"

definition generateStepID :: "nat list \<Rightarrow> string" where
  "generateStepID b =
     hexBytes (take 4 b) @ ''-'' @ hexBytes (take 2 (drop 4 b)) @ ''-'' @
     hexBytes (take 2 (drop 6 b)) @ ''-'' @ hexBytes (take 2 (drop 8 b)) @ ''-'' @
     hexBytes (drop 10 b)"

subsection \<open>The per-entry projection and the loop\<close>

text \<open>
  The body of the loop of \<^verbatim>\<open>transformGoogleAgentMessages\<close> for one object entry
  \<open>msgMap\<close>: the map literal, then the type-specific fields. \<open>stepID\<close> is the value
  \<^verbatim>\<open>generateStepID()\<close> returned for this entry.
\<close>

definition transformedMsg :: "(int \<Rightarrow> 'f) \<Rightarrow> string \<Rightarrow> 'f gmap \<Rightarrow> 'f gmap" where
  "transformedMsg f64 stepID msgMap =
     (let t = [''id'' \<mapsto> index msgMap ''id'',
               ''date'' \<mapsto> GNil,
               ''session_id'' \<mapsto> GNil,
               ''time_since_last_message'' \<mapsto> GNil,
               ''name'' \<mapsto> index msgMap ''name'',
               ''otid'' \<mapsto> index msgMap ''id'',
               ''sender_id'' \<mapsto> GNil,
               ''step_id'' \<mapsto> GString (''step-'' @ stepID),
               ''is_err'' \<mapsto> GNil,
               ''model_name'' \<mapsto> extractModelName msgMap,
               ''finish_reason'' \<mapsto> extractFinishReason msgMap,
               ''avg_logprobs'' \<mapsto> extractAvgLogprobs msgMap,
               ''usage_metadata'' \<mapsto> extractUsageMetadata f64 msgMap,
               ''message_type'' \<mapsto> GString (mapMessageType msgMap),
               ''content'' \<mapsto> index msgMap ''content''];
          msgType = mapMessageType msgMap
      in if msgType = ''tool_call_message'' then
           (case asSlice (index msgMap ''tool_calls'') of
              Some (first # others) \<Rightarrow>
                (case asMap first of
                   Some toolCall \<Rightarrow>
                     t(''tool_call'' \<mapsto> GMap [''name'' \<mapsto> index toolCall ''name'',
                                              ''arguments'' \<mapsto> index toolCall ''args'',
                                              ''tool_call_id'' \<mapsto> index toolCall ''id''])
                 | None \<Rightarrow> t)
            | _ \<Rightarrow> t)
         else if msgType = ''tool_return_message'' then
           (case msgMap ''name'' of
              Some name \<Rightarrow>
                t(''tool_return'' \<mapsto> index msgMap ''content'',
                  ''status'' \<mapsto> GString ''success'',
                  ''tool_call_id'' \<mapsto> index msgMap ''tool_call_id'',
                  ''stdout'' \<mapsto> GNil,
                  ''stderr'' \<mapsto> GNil,
                  ''name'' \<mapsto> name)
            | None \<Rightarrow> t)
         else t)"

text \<open>
  The loop over \<open>messagesList\<close>, with \<open>transformedMessages\<close> as accumulator. An entry
  that is not an object is skipped. \<open>randRead n\<close> is what the \<open>n\<close>-th call of
  \<^verbatim>\<open>rand.Read\<close> delivers; the loop calls it once per appended message.
\<close>

fun transformLoop ::
  "(int \<Rightarrow> 'f) \<Rightarrow> (nat \<Rightarrow> nat list) \<Rightarrow> 'f gval list \<Rightarrow> 'f gval list \<Rightarrow> 'f gval list" where
  "transformLoop f64 randRead [] transformedMessages = transformedMessages"
| "transformLoop f64 randRead (msgData # rest) transformedMessages =
     (case asMap msgData of
        None \<Rightarrow> transformLoop f64 randRead rest transformedMessages
      | Some msgMap \<Rightarrow>
          transformLoop f64 randRead rest
            (transformedMessages @
               [GMap (transformedMsg f64 (generateStepID (randRead (length transformedMessages))) msgMap)]))"

text \<open>The trailing record; \<open>now\<close> is \<^verbatim>\<open>time.Now().Format(time.RFC3339)\<close>.\<close>

definition usageStats :: "string \<Rightarrow> 'f gval list \<Rightarrow> 'f gmap" where
  "usageStats now transformedMessages =
     [''message_type'' \<mapsto> GString ''usage_statistics'',
      ''completion_tokens'' \<mapsto> GInt 0,
      ''prompt_tokens'' \<mapsto> GInt 0,
      ''total_tokens'' \<mapsto> GInt 0,
      ''step_count'' \<mapsto> GInt (int (length transformedMessages)),
      ''steps_messages'' \<mapsto> GNil,
      ''run_ids'' \<mapsto> GNil,
      ''agent_id'' \<mapsto> GString [],
      ''processed_at'' \<mapsto> GString now,
      ''status'' \<mapsto> GString ''done'',
      ''model_names'' \<mapsto> GStrings []]"

text \<open>
  The type switch: a \<^verbatim>\<open>[]interface{}\<close> is the list itself, any other non-nil value
  is a list of one, and the nil interface matches neither case, so that the default
  branch returns the still empty result. A nil slice and an empty slice are both the
  empty list.
\<close>

definition transformGoogleAgentMessages ::
  "(int \<Rightarrow> 'f) \<Rightarrow> (nat \<Rightarrow> nat list) \<Rightarrow> string \<Rightarrow> 'f gval \<Rightarrow> 'f gval list" where
  "transformGoogleAgentMessages f64 randRead now messagesData =
     (case messagesData of
        GNil \<Rightarrow> []
      | _ \<Rightarrow>
        (let messagesList = (case messagesData of GSlice v \<Rightarrow> v | v \<Rightarrow> [v]);
             transformedMessages = transformLoop f64 randRead messagesList []
         in transformedMessages @ [GMap (usageStats now transformedMessages)]))"

section \<open>Strings\<close>

text \<open>
  A Go string is a sequence of bytes, here a \<^typ>\<open>string\<close>. The functions of package
  strings that the handlers call are written out on bytes.
\<close>

text \<open>
  \<^verbatim>\<open>strings.ToLower\<close>: the letters A to Z are lowered. Bytes from 0x80 on are kept as
  they are, where Go lowers the rune they encode by the Unicode tables; the two runes
  that lower into ASCII (U+0130 to i, U+212A to k) meet no letter of the audio
  extensions, so that no suffix test below can tell the difference.
\<close>

definition toLowerByte :: "char \<Rightarrow> char" where
  "toLowerByte c =
     (let n = (of_char c :: nat) in if 65 \<le> n \<and> n \<le> 90 then char_of (n + 32) else c)"

definition ToLower :: "string \<Rightarrow> string" where
  "ToLower s = map toLowerByte s"

text \<open>\<^verbatim>\<open>strings.ReplaceAll(s, old, new)\<close> for a one-byte \<open>old\<close>.\<close>

definition ReplaceAll :: "string \<Rightarrow> char \<Rightarrow> string \<Rightarrow> string" where
  "ReplaceAll s old new = concat (map (\<lambda>c. if c = old then new else [c]) s)"

text \<open>
  \<^verbatim>\<open>strings.TrimSpace\<close> removes the leading and the trailing runes for which
  \<^verbatim>\<open>unicode.IsSpace\<close> holds. \<open>whiteSpace\<close> lists the UTF-8 encodings of those runes:
  U+0009 to U+000D, U+0020, U+0085, U+00A0, U+1680, U+2000 to U+200A, U+2028, U+2029,
  U+202F, U+205F and U+3000. A string starts (ends) with such a rune exactly when one
  of the encodings is a prefix (suffix) of it.
\<close>

definition whiteSpace :: "string list" where
  "whiteSpace =
     [[CHR 0x09], [CHR 0x0A], [CHR 0x0B], [CHR 0x0C], [CHR 0x0D], [CHR 0x20],
      [CHR 0xC2, CHR 0x85], [CHR 0xC2, CHR 0xA0],
      [CHR 0xE1, CHR 0x9A, CHR 0x80],
      [CHR 0xE2, CHR 0x80, CHR 0x80], [CHR 0xE2, CHR 0x80, CHR 0x81],
      [CHR 0xE2, CHR 0x80, CHR 0x82], [CHR 0xE2, CHR 0x80, CHR 0x83],
      [CHR 0xE2, CHR 0x80, CHR 0x84], [CHR 0xE2, CHR 0x80, CHR 0x85],
      [CHR 0xE2, CHR 0x80, CHR 0x86], [CHR 0xE2, CHR 0x80, CHR 0x87],
      [CHR 0xE2, CHR 0x80, CHR 0x88], [CHR 0xE2, CHR 0x80, CHR 0x89],
      [CHR 0xE2, CHR 0x80, CHR 0x8A],
      [CHR 0xE2, CHR 0x80, CHR 0xA8], [CHR 0xE2, CHR 0x80, CHR 0xA9],
      [CHR 0xE2, CHR 0x80, CHR 0xAF],
      [CHR 0xE2, CHR 0x81, CHR 0x9F],
      [CHR 0xE3, CHR 0x80, CHR 0x80]]"

text \<open>The width in bytes of the white-space rune \<open>s\<close> starts with; 0 when there is none.\<close>

definition leadingSpace :: "string \<Rightarrow> nat" where
  "leadingSpace s = (case find (\<lambda>w. prefix w s) whiteSpace of Some w \<Rightarrow> length w | None \<Rightarrow> 0)"

definition trailingSpace :: "string \<Rightarrow> nat" where
  "trailingSpace s = (case find (\<lambda>w. suffix w s) whiteSpace of Some w \<Rightarrow> length w | None \<Rightarrow> 0)"

function TrimLeft :: "string \<Rightarrow> string" where
  "TrimLeft s = (if leadingSpace s = 0 then s else TrimLeft (drop (leadingSpace s) s))"
  by pat_completeness auto
termination
proof (relation "measure length")
  show "wf (measure length)" by simp
next
  fix s :: string
  assume "leadingSpace s \<noteq> 0"
  moreover have "leadingSpace s \<le> length s"
    by (auto simp: leadingSpace_def prefix_length_le split: option.splits
          dest!: find_Some_iff[THEN iffD1])
  ultimately show "(drop (leadingSpace s) s, s) \<in> measure length"
    by (cases s) auto
qed

function TrimRight :: "string \<Rightarrow> string" where
  "TrimRight s = (if trailingSpace s = 0 then s else TrimRight (take (length s - trailingSpace s) s))"
  by pat_completeness auto
termination
proof (relation "measure length")
  show "wf (measure length)" by simp
next
  fix s :: string
  assume "trailingSpace s \<noteq> 0"
  moreover have "trailingSpace s \<le> length s"
    by (auto simp: trailingSpace_def suffix_length_le split: option.splits
          dest!: find_Some_iff[THEN iffD1])
  ultimately show "(take (length s - trailingSpace s) s, s) \<in> measure length"
    by (cases s) auto
qed

declare TrimLeft.simps [simp del] TrimRight.simps [simp del]

definition TrimSpace :: "string \<Rightarrow> string" where
  "TrimSpace s = TrimRight (TrimLeft s)"

section \<open>Audio Gate\<close>

definition audioExtensions :: "string list" where
  "audioExtensions = [''.mp3'', ''.wav'', ''.m4a'', ''.aac'', ''.ogg'', ''.flac'', ''.wma'']"

fun audioLoop :: "string \<Rightarrow> string list \<Rightarrow> bool" where
  "audioLoop url [] = False"
| "audioLoop url (ext # exts) = (if suffix ext (ToLower url) then True else audioLoop url exts)"

definition isAudioURL :: "string \<Rightarrow> bool" where
  "isAudioURL url = audioLoop url audioExtensions"

section \<open>Errors, messages and collaborators\<close>

text \<open>
  Every \<^verbatim>\<open>fmt.Errorf\<close> of the handlers is a constructor; \<open>Upstream\<close> is an error value
  handed back by a collaborator or a library, with its text. \<open>Error\<close> is the method
  \<^verbatim>\<open>Error()\<close>: the text that ends up under the error key.
\<close>

datatype error =
    Upstream string
  | UnsupportedProvider string
  | EngineNotAvailable
  | InvalidMessageContent error
  | FailedToGetThread error
  | FailedToGetAIResponse error
  | FailedToParseJSON error
  | MissingOutputField
  | OutputNotObject
  | FailedToMarshal error

fun Error :: "error \<Rightarrow> string" where
  "Error (Upstream text) = text"
| "Error (UnsupportedProvider provider) =
     ''unsupported provider: '' @ provider @ '' (currently only 'google_agent_engine' is supported)''"
| "Error EngineNotAvailable = ''google Agent Engine service is required but not available''"
| "Error (InvalidMessageContent err) = ''invalid message content: '' @ Error err"
| "Error (FailedToGetThread err) = ''failed to get thread: '' @ Error err"
| "Error (FailedToGetAIResponse err) = ''failed to get AI response: '' @ Error err"
| "Error (FailedToParseJSON err) = ''failed to parse AI response JSON: '' @ Error err"
| "Error MissingOutputField = ''invalid Google Agent Engine response format - missing 'output' field''"
| "Error OutputNotObject = ''invalid Google Agent Engine response format - 'output' is not an object''"
| "Error (FailedToMarshal err) = ''failed to marshal processed response: '' @ Error err"

text \<open>The structs of package models, with the fields the handlers read or write.\<close>

record QueueMessage =
  ID :: string
  UserNumber :: string
  Message :: string
  PreviousMessage :: "string option"
  Provider :: string
  Type :: string

record AgentResponse =
  Content :: string
  MessageID :: string
  ThreadID :: string

record 'f ProcessedMessageData =
  Messages :: "'f gval list"
  AgentID :: string
  ProcessedAt :: string
  Status :: string

record Delivery =
  Body :: string
  DeliveryTag :: nat
  MessageId :: string

text \<open>
  The collaborators behind \<^verbatim>\<open>MessageHandlerDependencies\<close>. A nil service is \<open>None\<close>.
  A service is the functions it offers, each from its arguments to what it returns.
  The logger is left out: it returns nothing the handlers read.
\<close>

record GoogleAgentEngineService =
  GetOrCreateThread :: "string \<Rightarrow> error + string"
  SendMessage :: "string \<Rightarrow> string \<Rightarrow> error + AgentResponse"

record TranscribeServiceInterface =
  TranscribeAudio :: "string \<Rightarrow> error + string"
  IsAudioURL :: "string \<Rightarrow> bool"
  ValidateAudioURL :: "string \<Rightarrow> error option"

record MessageFormatterInterface =
  FormatForWhatsApp :: "AgentResponse \<Rightarrow> error + string"
  FormatErrorMessage :: "error \<Rightarrow> string"
  ValidateMessageContent :: "string \<Rightarrow> error option"

record RedisConfig =
  TaskStatusTTL :: int
  TaskResultTTL :: int

text \<open>
  \<open>OTelWorkerWrapper\<close>: package middleware is not part of these sources. The wrapper is
  taken to run the task it is given once; what it hands back for the task's error is
  the parameter.
\<close>

record MessageHandlerDependencies =
  Config :: RedisConfig
  GoogleAgentService :: "GoogleAgentEngineService option"
  TranscribeService :: "TranscribeServiceInterface option"
  MessageFormatter :: "MessageFormatterInterface option"
  OTelWorkerWrapper :: "(error option \<Rightarrow> error option) option"

text \<open>
  What the libraries and the machine contribute: the conversion \<^verbatim>\<open>float64(i)\<close>, the
  bytes of crypto/rand, the formatted clock, and encoding/json. Unmarshalling into a
  \<^verbatim>\<open>map[string]interface{}\<close> yields the map or an error (the JSON text
  \<^verbatim>\<open>null\<close> leaves the map nil, which reads as a map without keys).
\<close>

record 'f env =
  float64 :: "int \<Rightarrow> 'f"
  randRead :: "nat \<Rightarrow> nat list"
  timeNow :: string
  unmarshalQueueMessage :: "string \<Rightarrow> error + QueueMessage"
  unmarshalMap :: "string \<Rightarrow> error + 'f gmap"
  marshalProcessed :: "'f ProcessedMessageData \<Rightarrow> error + string"

text \<open>
  The calls a handler makes on its collaborators, in the order it makes them. A store
  write's own failure is only logged, so the call is all there is to record. The task
  states are the constants of package models; the handlers only pass them on.
\<close>

datatype TaskStatus = TaskStatusProcessing | TaskStatusCompleted | TaskStatusFailed

datatype call =
    Redis_SetTaskStatus string TaskStatus int
  | Redis_Set string string int
  | Redis_SetTaskResult string string int
  | Transcribe_TranscribeAudio string
  | Formatter_ValidateMessageContent string
  | Formatter_FormatForWhatsApp AgentResponse
  | Engine_GetOrCreateThread string
  | Engine_SendMessage string string

section \<open>Content Formatter Gate\<close>

text \<open>
  One round of the loop of \<^verbatim>\<open>applyWhatsAppFormattingToMessages\<close>: the message after
  the round and the formatter calls made. The messages the pipeline hands over are
  maps it has just built, one per slot, so a slot is modelled by its value.
\<close>

definition formatMessage ::
  "MessageFormatterInterface \<Rightarrow> 'f gval \<Rightarrow> 'f gval \<times> call list" where
  "formatMessage messageFormatter msgInterface =
     (case asMap msgInterface of
        Some msgMap \<Rightarrow>
          (case asString (index msgMap ''content'') of
             Some content \<Rightarrow>
               if content \<noteq> [] then
                 (let tempResponse = \<lparr>Content = content, MessageID = ''temp'', ThreadID = ''temp''\<rparr>;
                      formattedContent =
                        (case FormatForWhatsApp messageFormatter tempResponse of
                           Inl err \<Rightarrow> content
                         | Inr formatted \<Rightarrow> formatted)
                  in (GMap (msgMap(''content'' \<mapsto> GString formattedContent)),
                      [Formatter_FormatForWhatsApp tempResponse]))
               else (msgInterface, [])
           | None \<Rightarrow> (msgInterface, []))
      | None \<Rightarrow> (msgInterface, []))"

fun formatLoop ::
  "MessageFormatterInterface \<Rightarrow> 'f gval list \<Rightarrow> 'f gval list \<times> call list" where
  "formatLoop messageFormatter [] = ([], [])"
| "formatLoop messageFormatter (msgInterface # rest) =
     (let (msg, calls) = formatMessage messageFormatter msgInterface;
          (msgs, calls') = formatLoop messageFormatter rest
      in (msg # msgs, calls @ calls'))"

definition applyWhatsAppFormattingToMessages ::
  "MessageFormatterInterface option \<Rightarrow> 'f gval list \<Rightarrow> 'f gval list \<times> call list" where
  "applyWhatsAppFormattingToMessages messageFormatter messages =
     (case messageFormatter of
        None \<Rightarrow> (messages, [])
      | Some formatter \<Rightarrow> formatLoop formatter messages)"

section \<open>Pipeline Orchestrator\<close>

subsection \<open>The stages of processUserMessage\<close>

text \<open>
  \<^verbatim>\<open>processUserMessage\<close> is one long function; its stages are named here after the
  variables they compute. Each stage returns its value and the calls it made.
\<close>

definition fallbackText :: string where
  "fallbackText = ''Ajuda''"

text \<open>The literal the transcript is compared with, in the UTF-8 bytes of the source file.\<close>

definition noRecognizableContent :: string where
  "noRecognizableContent =
     [CHR 0xC3, CHR 0x81] @ ''udio sem conte'' @ [CHR 0xC3, CHR 0xBA] @ ''do reconhec'' @
     [CHR 0xC3, CHR 0xAD] @ ''vel''"

text \<open>
  Audio transcription: the resolved \<open>message\<close>, \<open>transcriptText\<close> and the calls.
\<close>

definition resolveMessage ::
  "TranscribeServiceInterface option \<Rightarrow> string \<Rightarrow> string \<times> string option \<times> call list" where
  "resolveMessage transcribeService message =
     (if isAudioURL message then
        (case transcribeService of
           None \<Rightarrow> (fallbackText, None, [])
         | Some service \<Rightarrow>
             (case TranscribeAudio service message of
                Inl err \<Rightarrow> (fallbackText, None, [Transcribe_TranscribeAudio message])
              | Inr transcript \<Rightarrow>
                  if transcript \<noteq> [] \<and> TrimSpace transcript \<noteq> [] \<and>
                     transcript \<noteq> noRecognizableContent
                  then (transcript, Some transcript, [Transcribe_TranscribeAudio message])
                  else (fallbackText, None, [Transcribe_TranscribeAudio message])))
      else (message, None, []))"

text \<open>The optional content validation: the error, if any, and the calls.\<close>

definition validateMessage ::
  "MessageFormatterInterface option \<Rightarrow> string \<Rightarrow> error option \<times> call list" where
  "validateMessage messageFormatter message =
     (case messageFormatter of
        None \<Rightarrow> (None, [])
      | Some formatter \<Rightarrow>
          (ValidateMessageContent formatter message, [Formatter_ValidateMessageContent message]))"

text \<open>Cleaning the raw payload, and parsing it down to the \<open>output\<close> object.\<close>

definition cleanedResponse :: "string \<Rightarrow> string" where
  "cleanedResponse content =
     TrimSpace (ReplaceAll (ReplaceAll content (CHR 0x0A) []) (CHR 0x0D) [])"

definition parseOutput :: "'f env \<Rightarrow> string \<Rightarrow> error + 'f gmap" where
  "parseOutput env content =
     (case unmarshalMap env (cleanedResponse content) of
        Inl err \<Rightarrow> Inl (FailedToParseJSON err)
      | Inr parsedResponse \<Rightarrow>
          (case parsedResponse ''output'' of
             None \<Rightarrow> Inl MissingOutputField
           | Some output \<Rightarrow>
               (case asMap output of
                  None \<Rightarrow> Inl OutputNotObject
                | Some outputMap \<Rightarrow> Inr outputMap)))"

text \<open>
  Setting \<open>agent_id\<close> in the last message when it is the usage statistics: the
  comparison \<^verbatim>\<open>msgType == "usage_statistics"\<close> of an interface value with a string
  holds for a string of that value only.
\<close>

definition stampAgentID :: "string \<Rightarrow> 'f gval list \<Rightarrow> 'f gval list" where
  "stampAgentID agentID transformedMessages =
     (if length transformedMessages > 0 then
        (case asMap (last transformedMessages) of
           Some lastMsg \<Rightarrow>
             (case lastMsg ''message_type'' of
                Some (GString msgType) \<Rightarrow>
                  if msgType = ''usage_statistics''
                  then butlast transformedMessages @
                         [GMap (lastMsg(''agent_id'' \<mapsto> GString agentID))]
                  else transformedMessages
              | _ \<Rightarrow> transformedMessages)
         | None \<Rightarrow> transformedMessages)
      else transformedMessages)"

text \<open>From the \<open>output\<close> object to \<open>processedData\<close>.\<close>

definition buildProcessedData ::
  "'f env \<Rightarrow> MessageHandlerDependencies \<Rightarrow> QueueMessage \<Rightarrow> 'f gmap \<Rightarrow>
   'f ProcessedMessageData \<times> call list" where
  "buildProcessedData env deps msg outputMap =
     (let transformedMessages =
            (case outputMap ''messages'' of
               Some messagesArray \<Rightarrow>
                 transformGoogleAgentMessages (float64 env) (randRead env) (timeNow env) messagesArray
             | None \<Rightarrow> []);
          agentID = ''user_'' @ UserNumber msg;
          (formatted, calls) =
            applyWhatsAppFormattingToMessages (MessageFormatter deps)
              (stampAgentID agentID transformedMessages)
      in (\<lparr>Messages = formatted, AgentID = agentID, ProcessedAt = ID msg, Status = ''done''\<rparr>,
          calls))"

text \<open>Everything after the engine has answered.\<close>

definition processAgentResponse ::
  "'f env \<Rightarrow> MessageHandlerDependencies \<Rightarrow> QueueMessage \<Rightarrow> AgentResponse \<Rightarrow>
   (error + string) \<times> call list" where
  "processAgentResponse env deps msg agentResponse =
     (case parseOutput env (Content agentResponse) of
        Inl err \<Rightarrow> (Inl err, [])
      | Inr outputMap \<Rightarrow>
          (let (processedData, calls) = buildProcessedData env deps msg outputMap
           in case marshalProcessed env processedData of
                Inl err \<Rightarrow> (Inl (FailedToMarshal err), calls)
              | Inr processedBytes \<Rightarrow> (Inr processedBytes, calls)))"

subsection \<open>processUserMessage and the handler\<close>

definition processUserMessage ::
  "'f env \<Rightarrow> MessageHandlerDependencies \<Rightarrow> QueueMessage \<Rightarrow> (error + string) \<times> call list" where
  "processUserMessage env deps msg =
     (if Provider msg \<noteq> ''google_agent_engine'' then (Inl (UnsupportedProvider (Provider msg)), [])
      else
        (case GoogleAgentService deps of
           None \<Rightarrow> (Inl EngineNotAvailable, [])
         | Some engine \<Rightarrow>
             (let (message, transcriptText, calls1) =
                    resolveMessage (TranscribeService deps) (Message msg);
                  (invalid, calls2) = validateMessage (MessageFormatter deps) message
              in case invalid of
                   Some err \<Rightarrow> (Inl (InvalidMessageContent err), calls1 @ calls2)
                 | None \<Rightarrow>
                     (case GetOrCreateThread engine (UserNumber msg) of
                        Inl err \<Rightarrow>
                          (Inl (FailedToGetThread err),
                           calls1 @ calls2 @ [Engine_GetOrCreateThread (UserNumber msg)])
                      | Inr threadID \<Rightarrow>
                          (case SendMessage engine threadID message of
                             Inl err \<Rightarrow>
                               (Inl (FailedToGetAIResponse err),
                                calls1 @ calls2 @ [Engine_GetOrCreateThread (UserNumber msg),
                                                   Engine_SendMessage threadID message])
                           | Inr agentResponse \<Rightarrow>
                               (let (result, calls3) = processAgentResponse env deps msg agentResponse
                                in (result,
                                    calls1 @ calls2 @ [Engine_GetOrCreateThread (UserNumber msg),
                                                       Engine_SendMessage threadID message] @ calls3)))))))"

text \<open>
  The handler \<^verbatim>\<open>CreateUserMessageHandler\<close> returns: the error it hands to the queue
  layer (\<open>None\<close> is nil) and the calls it made. \<open>taskOutcome\<close> is the part between the
  first status write and \<^verbatim>\<open>if err != nil\<close>: \<open>response\<close>, \<open>err\<close> and the calls.
\<close>

definition taskOutcome ::
  "'f env \<Rightarrow> MessageHandlerDependencies \<Rightarrow> QueueMessage \<Rightarrow> string \<times> error option \<times> call list" where
  "taskOutcome env deps queueMsg =
     (let (result, calls) = processUserMessage env deps queueMsg;
          response = (case result of Inl e \<Rightarrow> [] | Inr r \<Rightarrow> r);
          taskErr = (case result of Inl e \<Rightarrow> Some e | Inr r \<Rightarrow> None)
      in case OTelWorkerWrapper deps of
           Some wrapWorkerTask \<Rightarrow> (response, wrapWorkerTask taskErr, calls)
         | None \<Rightarrow> (response, taskErr, calls))"

definition CreateUserMessageHandler ::
  "'f env \<Rightarrow> MessageHandlerDependencies \<Rightarrow> Delivery \<Rightarrow> error option \<times> call list" where
  "CreateUserMessageHandler env deps delivery =
     (case unmarshalQueueMessage env (Body delivery) of
        Inl err \<Rightarrow> (Some err, [])
      | Inr queueMsg \<Rightarrow>
          (let (response, err, calls) = taskOutcome env deps queueMsg
           in case err of
                Some e \<Rightarrow>
                  (None,
                   [Redis_SetTaskStatus (ID queueMsg) TaskStatusProcessing (TaskStatusTTL (Config deps))] @
                   calls @
                   [Redis_Set (''task:error:'' @ ID queueMsg) (Error e) (TaskStatusTTL (Config deps)),
                    Redis_SetTaskStatus (ID queueMsg) TaskStatusFailed (TaskStatusTTL (Config deps))])
              | None \<Rightarrow>
                  (None,
                   [Redis_SetTaskStatus (ID queueMsg) TaskStatusProcessing (TaskStatusTTL (Config deps))] @
                   calls @
                   [Redis_SetTaskResult (ID queueMsg) response (TaskResultTTL (Config deps)),
                    Redis_SetTaskStatus (ID queueMsg) TaskStatusCompleted (TaskStatusTTL (Config deps))])))"

section \<open>Notions the properties are stated with\<close>

text \<open>The value under key \<open>k\<close> of a message that is an object.\<close>

definition field :: "'f gval \<Rightarrow> string \<Rightarrow> 'f gval option" where
  "field v k = (case asMap v of Some m \<Rightarrow> m k | None \<Rightarrow> None)"

text \<open>
  The object entries of the engine's \<open>messages\<close> value, in order: of the sequence, or
  of the single value taken as a sequence of one.
\<close>

definition objectEntries :: "'f gval \<Rightarrow> 'f gmap list" where
  "objectEntries messagesData =
     (case messagesData of
        GNil \<Rightarrow> []
      | GSlice v \<Rightarrow> List.map_filter asMap v
      | v \<Rightarrow> List.map_filter asMap [v])"

text \<open>The projections of a list of entries, the first with the \<open>n\<close>-th random draw.\<close>

definition projected ::
  "(int \<Rightarrow> 'f) \<Rightarrow> (nat \<Rightarrow> nat list) \<Rightarrow> nat \<Rightarrow> 'f gmap list \<Rightarrow> 'f gval list" where
  "projected f64 rr n entries =
     map (\<lambda>(i, msgMap). GMap (transformedMsg f64 (generateStepID (rr i)) msgMap))
       (enumerate n entries)"

text \<open>
  The role tag of an entry: the string under \<open>type\<close>, none when the key is missing or
  holds no string. The tool-call list: the sequence under \<open>tool_calls\<close>, empty when
  there is none.
\<close>

definition roleTag :: "'f gmap \<Rightarrow> string option" where
  "roleTag entry = (case entry ''type'' of Some (GString tag) \<Rightarrow> Some tag | _ \<Rightarrow> None)"

definition toolCallList :: "'f gmap \<Rightarrow> 'f gval list" where
  "toolCallList entry = (case entry ''tool_calls'' of Some (GSlice calls) \<Rightarrow> calls | _ \<Rightarrow> [])"

text \<open>
  The content of a message when it is a string, and when it is a non-empty string;
  the throw-away response the gate wraps a content in.
\<close>

definition contentString :: "'f gval \<Rightarrow> string option" where
  "contentString v = (case field v ''content'' of Some (GString c) \<Rightarrow> Some c | _ \<Rightarrow> None)"

definition nonEmptyContent :: "'f gval \<Rightarrow> string option" where
  "nonEmptyContent v =
     (case contentString v of Some c \<Rightarrow> if c = [] then None else Some c | None \<Rightarrow> None)"

definition tempResponse :: "string \<Rightarrow> AgentResponse" where
  "tempResponse c = \<lparr>Content = c, MessageID = ''temp'', ThreadID = ''temp''\<rparr>"

text \<open>A usage-statistics record with step count \<open>n\<close>.\<close>

definition usageRecord :: "'f gval \<Rightarrow> nat \<Rightarrow> bool" where
  "usageRecord v n =
     (field v ''message_type'' = Some (GString ''usage_statistics'') \<and>
      field v ''step_count'' = Some (GInt (int n)) \<and>
      field v ''completion_tokens'' = Some (GInt 0) \<and>
      field v ''prompt_tokens'' = Some (GInt 0) \<and>
      field v ''total_tokens'' = Some (GInt 0) \<and>
      field v ''status'' = Some (GString ''done'') \<and>
      field v ''model_names'' = Some (GStrings []))"

text \<open>
  A string of white-space runes only. A string that ends with an extension when
  letter case is ignored; an audio reference ends so with one of the audio
  extensions.
\<close>

definition whitespaceOnly :: "string \<Rightarrow> bool" where
  "whitespaceOnly s = (\<exists>ws. set ws \<subseteq> set whiteSpace \<and> s = concat ws)"

definition endsWithIgnoringCase :: "string \<Rightarrow> string \<Rightarrow> bool" where
  "endsWithIgnoringCase s ext =
     (length ext \<le> length s \<and> map toLowerByte (drop (length s - length ext) s) = ext)"

definition audioReference :: "string \<Rightarrow> bool" where
  "audioReference s = list_ex (endsWithIgnoringCase s) audioExtensions"

text \<open>The calls on the transcriber and the formatter, as opposed to engine and store.\<close>

fun sideCall :: "call \<Rightarrow> bool" where
  "sideCall (Transcribe_TranscribeAudio url) = True"
| "sideCall (Formatter_ValidateMessageContent content) = True"
| "sideCall (Formatter_FormatForWhatsApp response) = True"
| "sideCall other = False"

text \<open>
  The error of a result; the error the handler sees after the optional tracing
  wrapper; the errors of the parsing stage; the writes of a result to the store.
\<close>

definition taskError :: "error + string \<Rightarrow> error option" where
  "taskError result = (case result of Inl e \<Rightarrow> Some e | Inr r \<Rightarrow> None)"

definition tracedError :: "MessageHandlerDependencies \<Rightarrow> error option \<Rightarrow> error option" where
  "tracedError deps err =
     (case OTelWorkerWrapper deps of None \<Rightarrow> err | Some wrapWorkerTask \<Rightarrow> wrapWorkerTask err)"

fun parseFailure :: "error \<Rightarrow> bool" where
  "parseFailure (FailedToParseJSON err) = True"
| "parseFailure MissingOutputField = True"
| "parseFailure OutputNotObject = True"
| "parseFailure other = False"

fun resultWrite :: "call \<Rightarrow> bool" where
  "resultWrite (Redis_SetTaskResult taskID result ttl) = True"
| "resultWrite other = False"

fun engineCall :: "call \<Rightarrow> bool" where
  "engineCall (Engine_GetOrCreateThread user) = True"
| "engineCall (Engine_SendMessage thread content) = True"
| "engineCall other = False"

section \<open>Example inputs\<close>

text \<open>
  A reply of the engine as encoding/json decodes it (every number a float64, here a
  real): a human entry, an answer with usage metadata, a stray string, an answer with a
  tool call, and a tool result.
\<close>

definition ex_rand :: "nat \<Rightarrow> nat list" where
  "ex_rand n = replicate 16 n"

definition ex_now :: string where
  "ex_now = ''2026-01-01T00:00:00Z''"

definition ex_human :: "real gmap" where
  "ex_human = [''type'' \<mapsto> GString ''human'', ''id'' \<mapsto> GString ''m1'',
               ''content'' \<mapsto> GString ''hello'']"

definition ex_usage :: "real gmap" where
  "ex_usage = [''input_tokens'' \<mapsto> GFloat64 10, ''output_tokens'' \<mapsto> GFloat64 5,
               ''total_tokens'' \<mapsto> GFloat64 15,
               ''output_token_details'' \<mapsto> GMap [''reasoning'' \<mapsto> GFloat64 3],
               ''input_token_details'' \<mapsto> GMap [''cache_read'' \<mapsto> GFloat64 2]]"

definition ex_ai :: "real gmap" where
  "ex_ai = [''type'' \<mapsto> GString ''ai'', ''id'' \<mapsto> GString ''m2'',
            ''content'' \<mapsto> GString ''hi there'',
            ''response_metadata'' \<mapsto> GMap [''model_name'' \<mapsto> GString ''gemini'',
                                            ''usage_metadata'' \<mapsto> GMap ex_usage]]"

text \<open>The same answer with Go ints in place of the decoded numbers.\<close>

definition ex_usage_ints :: "real gmap" where
  "ex_usage_ints = [''input_tokens'' \<mapsto> GInt 10, ''output_tokens'' \<mapsto> GInt 5,
                    ''total_tokens'' \<mapsto> GInt 15,
                    ''output_token_details'' \<mapsto> GMap [''reasoning'' \<mapsto> GInt 3],
                    ''input_token_details'' \<mapsto> GMap [''cache_read'' \<mapsto> GInt 2]]"

definition ex_ai_ints :: "real gmap" where
  "ex_ai_ints = [''type'' \<mapsto> GString ''ai'', ''id'' \<mapsto> GString ''m2'',
                 ''content'' \<mapsto> GString ''hi there'',
                 ''response_metadata'' \<mapsto> GMap [''model_name'' \<mapsto> GString ''gemini'',
                                                 ''usage_metadata'' \<mapsto> GMap ex_usage_ints]]"

definition ex_tool_call :: "real gmap" where
  "ex_tool_call = [''name'' \<mapsto> GString ''search'', ''args'' \<mapsto> GMap [''q'' \<mapsto> GString ''rio''],
                   ''id'' \<mapsto> GString ''call_1'']"

definition ex_ai_tools :: "real gmap" where
  "ex_ai_tools = [''type'' \<mapsto> GString ''ai'', ''id'' \<mapsto> GString ''m3'', ''content'' \<mapsto> GString [],
                  ''tool_calls'' \<mapsto> GSlice [GMap ex_tool_call]]"

definition ex_tool :: "real gmap" where
  "ex_tool = [''type'' \<mapsto> GString ''tool'', ''id'' \<mapsto> GString ''m4'',
              ''name'' \<mapsto> GString ''search'', ''content'' \<mapsto> GString ''found'',
              ''tool_call_id'' \<mapsto> GString ''call_1'']"

definition ex_messages :: "real gval" where
  "ex_messages =
     GSlice [GMap ex_human, GMap ex_ai, GString ''noise'', GMap ex_ai_tools, GMap ex_tool]"

definition ex_transformed :: "real gval list" where
  "ex_transformed = transformGoogleAgentMessages real_of_int ex_rand ex_now ex_messages"

text \<open>An answer whose first tool call is a string, followed by a tool call object.\<close>

definition ex_ai_stray_tool :: "real gmap" where
  "ex_ai_stray_tool = [''type'' \<mapsto> GString ''ai'', ''id'' \<mapsto> GString ''m6'',
                       ''content'' \<mapsto> GString [],
                       ''tool_calls'' \<mapsto> GSlice [GString ''x'', GMap ex_tool_call]]"

definition ex_transformed_stray_tool :: "real gval list" where
  "ex_transformed_stray_tool =
     transformGoogleAgentMessages real_of_int ex_rand ex_now (GSlice [GMap ex_ai_stray_tool])"

text \<open>A tool result without a \<open>name\<close> key.\<close>

definition ex_tool_unnamed :: "real gmap" where
  "ex_tool_unnamed = [''type'' \<mapsto> GString ''tool'', ''id'' \<mapsto> GString ''m5'',
                      ''content'' \<mapsto> GString ''found'', ''tool_call_id'' \<mapsto> GString ''call_1'']"

definition ex_transformed_unnamed :: "real gval list" where
  "ex_transformed_unnamed =
     transformGoogleAgentMessages real_of_int ex_rand ex_now (GSlice [GMap ex_tool_unnamed])"

text \<open>
  A formatter that fails on one text and stars every other, and messages for it: two
  with a text, one with the empty text, one that is no object.
\<close>

definition ex_formatter :: MessageFormatterInterface where
  "ex_formatter =
     \<lparr>FormatForWhatsApp = (\<lambda>r. if Content r = ''hi there'' then Inl (Upstream ''format failed'')
                                else Inr (''*'' @ Content r @ ''*'')),
      FormatErrorMessage = Error,
      ValidateMessageContent = (\<lambda>text. if text = [] then Some (Upstream ''empty message'') else None)\<rparr>"

definition ex_plain :: "real gval list" where
  "ex_plain = [GMap ex_human, GMap ex_ai, GMap ex_ai_tools, GString ''noise'']"

definition ex_formatted :: "real gval list \<times> call list" where
  "ex_formatted = applyWhatsAppFormattingToMessages (Some ex_formatter) ex_plain"

text \<open>
  A run of the pipeline. The engine answers the text hello with a chat of two entries
  (the payload carries stray line breaks and blanks), the fallback text with an output
  that has no \<open>messages\<close> field, the text broken with a payload that is no JSON, and
  fails on any other text. The decoders are finite tables that stand for encoding/json
  on these texts; the encoder renders the messages by their number only.
\<close>

definition quoted :: "string \<Rightarrow> string" where
  "quoted s = CHR 0x22 # s @ [CHR 0x22]"

definition ex_chat :: "real gval" where
  "ex_chat = GSlice [GMap [''type'' \<mapsto> GString ''human'', ''content'' \<mapsto> GString ''hello''],
                     GMap [''type'' \<mapsto> GString ''ai'', ''content'' \<mapsto> GString ''hi there'']]"

definition ex_output :: "real gmap" where
  "ex_output = [''messages'' \<mapsto> ex_chat]"

definition ex_output_bare :: "real gmap" where
  "ex_output_bare = Map.empty"

definition ex_reply_text :: string where
  "ex_reply_text =
     ''  {'' @ quoted ''output'' @ '':{'' @ quoted ''messages'' @ '':['' @ [CHR 0x0A] @
     ''{'' @ quoted ''type'' @ '':'' @ quoted ''human'' @ '','' @ quoted ''content'' @ '':'' @
     quoted ''hello'' @ ''},'' @ [CHR 0x0D, CHR 0x0A] @
     ''{'' @ quoted ''type'' @ '':'' @ quoted ''ai'' @ '','' @ quoted ''content'' @ '':'' @
     quoted ''hi there'' @ ''}]}}'' @ [CHR 0x0A]"

definition ex_reply_clean :: string where
  "ex_reply_clean =
     ''{'' @ quoted ''output'' @ '':{'' @ quoted ''messages'' @ '':['' @
     ''{'' @ quoted ''type'' @ '':'' @ quoted ''human'' @ '','' @ quoted ''content'' @ '':'' @
     quoted ''hello'' @ ''},'' @
     ''{'' @ quoted ''type'' @ '':'' @ quoted ''ai'' @ '','' @ quoted ''content'' @ '':'' @
     quoted ''hi there'' @ ''}]}}''"

definition ex_bare_text :: string where
  "ex_bare_text = ''{'' @ quoted ''output'' @ '':{}}''"

definition ex_unmarshalMap :: "string \<Rightarrow> error + real gmap" where
  "ex_unmarshalMap text =
     (if text = ex_reply_clean then Inr [''output'' \<mapsto> GMap ex_output]
      else if text = ex_bare_text then Inr [''output'' \<mapsto> GMap ex_output_bare]
      else Inl (Upstream ''invalid character''))"

definition ex_marshal :: "real ProcessedMessageData \<Rightarrow> error + string" where
  "ex_marshal d =
     Inr (''{'' @ quoted ''messages'' @ '':'' @ replicate (length (Messages d)) (CHR ''m'') @ '','' @
          quoted ''agent_id'' @ '':'' @ quoted (AgentID d) @ '','' @
          quoted ''processed_at'' @ '':'' @ quoted (ProcessedAt d) @ '','' @
          quoted ''status'' @ '':'' @ quoted (Status d) @ ''}'')"

definition ex_msg :: QueueMessage where
  "ex_msg = \<lparr>ID = ''t1'', UserNumber = ''5521'', Message = ''hello'', PreviousMessage = None,
             Provider = ''google_agent_engine'', Type = ''user_message''\<rparr>"

definition ex_msg_audio :: QueueMessage where
  "ex_msg_audio = \<lparr>ID = ''t2'', UserNumber = ''5521'', Message = ''http://x/voice.mp3'',
                   PreviousMessage = None, Provider = ''google_agent_engine'',
                   Type = ''user_message''\<rparr>"

definition ex_msg_broken :: QueueMessage where
  "ex_msg_broken = \<lparr>ID = ''t3'', UserNumber = ''5521'', Message = ''broken'', PreviousMessage = None,
                    Provider = ''google_agent_engine'', Type = ''user_message''\<rparr>"

definition ex_msg_bare :: QueueMessage where
  "ex_msg_bare = \<lparr>ID = ''t5'', UserNumber = ''5521'', Message = ''Ajuda'', PreviousMessage = None,
                  Provider = ''google_agent_engine'', Type = ''user_message''\<rparr>"

definition ex_msg_openai :: QueueMessage where
  "ex_msg_openai = \<lparr>ID = ''t4'', UserNumber = ''5521'', Message = ''hello'', PreviousMessage = None,
                    Provider = ''openai'', Type = ''user_message''\<rparr>"

definition ex_body :: "QueueMessage \<Rightarrow> string" where
  "ex_body m =
     ''{'' @ quoted ''id'' @ '':'' @ quoted (ID m) @ '','' @
     quoted ''user_number'' @ '':'' @ quoted (UserNumber m) @ '','' @
     quoted ''message'' @ '':'' @ quoted (Message m) @ '','' @
     quoted ''provider'' @ '':'' @ quoted (Provider m) @ '','' @
     quoted ''type'' @ '':'' @ quoted (Type m) @ ''}''"

definition ex_unmarshalQueueMessage :: "string \<Rightarrow> error + QueueMessage" where
  "ex_unmarshalQueueMessage body =
     (if body = ex_body ex_msg then Inr ex_msg
      else if body = ex_body ex_msg_audio then Inr ex_msg_audio
      else if body = ex_body ex_msg_broken then Inr ex_msg_broken
      else if body = ex_body ex_msg_bare then Inr ex_msg_bare
      else if body = ex_body ex_msg_openai then Inr ex_msg_openai
      else Inl (Upstream ''unexpected end of JSON input''))"

definition ex_env :: "real env" where
  "ex_env = \<lparr>float64 = real_of_int, randRead = ex_rand, timeNow = ex_now,
             unmarshalQueueMessage = ex_unmarshalQueueMessage,
             unmarshalMap = ex_unmarshalMap, marshalProcessed = ex_marshal\<rparr>"

definition ex_engine :: GoogleAgentEngineService where
  "ex_engine =
     \<lparr>GetOrCreateThread = (\<lambda>user. Inr (''thread_'' @ user)),
      SendMessage = (\<lambda>thread text.
        if text = ''hello'' then Inr \<lparr>Content = ex_reply_text, MessageID = ''r1'', ThreadID = thread\<rparr>
        else if text = ''Ajuda'' then Inr \<lparr>Content = ex_bare_text, MessageID = ''r2'', ThreadID = thread\<rparr>
        else if text = ''broken'' then Inr \<lparr>Content = ''<html>'', MessageID = ''r3'', ThreadID = thread\<rparr>
        else Inl (Upstream ''engine unavailable''))\<rparr>"

definition ex_transcriber :: TranscribeServiceInterface where
  "ex_transcriber =
     \<lparr>TranscribeAudio = (\<lambda>url.
        if url = ''http://x/voice.mp3'' then Inr []
        else if url = ''http://x/blank.WAV'' then Inr ('' '' @ [CHR 0xC2, CHR 0xA0, CHR 0x09])
        else if url = ''http://x/noise.ogg'' then Inr noRecognizableContent
        else if url = ''http://x/speech.M4a'' then Inr ''hello''
        else Inl (Upstream ''download failed'')),
      IsAudioURL = isAudioURL,
      ValidateAudioURL = (\<lambda>url. None)\<rparr>"

definition ex_deps :: MessageHandlerDependencies where
  "ex_deps = \<lparr>Config = \<lparr>TaskStatusTTL = 3600, TaskResultTTL = 7200\<rparr>,
              GoogleAgentService = Some ex_engine,
              TranscribeService = Some ex_transcriber,
              MessageFormatter = Some ex_formatter,
              OTelWorkerWrapper = None\<rparr>"

definition ex_final :: "real gval list" where
  "ex_final = Messages (fst (buildProcessedData ex_env ex_deps ex_msg ex_output))"

definition ex_final_bare :: "real gval list" where
  "ex_final_bare = Messages (fst (buildProcessedData ex_env ex_deps ex_msg_bare ex_output_bare))"

text \<open>Deliveries: one per example message, and one whose body is cut short.\<close>

definition ex_delivery :: Delivery where
  "ex_delivery = \<lparr>Body = ex_body ex_msg, DeliveryTag = 1, MessageId = ''d1''\<rparr>"

definition ex_delivery_broken :: Delivery where
  "ex_delivery_broken = \<lparr>Body = ex_body ex_msg_broken, DeliveryTag = 3, MessageId = ''d3''\<rparr>"

definition ex_delivery_openai :: Delivery where
  "ex_delivery_openai = \<lparr>Body = ex_body ex_msg_openai, DeliveryTag = 4, MessageId = ''d4''\<rparr>"

definition ex_delivery_malformed :: Delivery where
  "ex_delivery_malformed = \<lparr>Body = ''{'', DeliveryTag = 6, MessageId = ''d6''\<rparr>"

section \<open>The transformer, entry by entry\<close>

lemma transformLoop_projected:
  "transformLoop f64 rr xs acc = acc @ projected f64 rr (length acc) (List.map_filter asMap xs)"
  by (induction xs arbitrary: acc) (auto simp: projected_def map_filter_simps split: option.splits)

lemma transformGoogleAgentMessages_projected:
  "messagesData \<noteq> GNil \<Longrightarrow>
   transformGoogleAgentMessages f64 rr now messagesData =
     projected f64 rr 0 (objectEntries messagesData) @
     [GMap (usageStats now (projected f64 rr 0 (objectEntries messagesData)))]"
  by (cases messagesData)
     (simp_all add: transformGoogleAgentMessages_def objectEntries_def transformLoop_projected Let_def)

lemma projected_nth:
  "i < length entries \<Longrightarrow>
   projected f64 rr n entries ! i =
     GMap (transformedMsg f64 (generateStepID (rr (n + i))) (entries ! i))"
  by (simp add: projected_def nth_enumerate_eq)

lemma length_projected: "length (projected f64 rr n entries) = length entries"
  by (simp add: projected_def)

lemma transformed_nth:
  assumes "i < length (objectEntries messagesData)"
  shows "transformGoogleAgentMessages f64 rr now messagesData ! i =
         GMap (transformedMsg f64 (generateStepID (rr i)) (objectEntries messagesData ! i))"
proof -
  from assms have "messagesData \<noteq> GNil" by (auto simp: objectEntries_def)
  then show ?thesis using assms
    by (simp add: transformGoogleAgentMessages_projected nth_append length_projected projected_nth)
qed

lemma field_transformed_nth:
  "i < length (objectEntries messagesData) \<Longrightarrow>
   field (transformGoogleAgentMessages f64 rr now messagesData ! i) k =
   transformedMsg f64 (generateStepID (rr i)) (objectEntries messagesData ! i) k"
  by (simp add: transformed_nth field_def)

lemma ex_entries: "objectEntries ex_messages = [ex_human, ex_ai, ex_ai_tools, ex_tool]"
  by (simp add: objectEntries_def ex_messages_def map_filter_simps)

lemma transformedMsg_otid: "transformedMsg f64 sid e ''otid'' = Some (index e ''id'')"
  by (simp add: transformedMsg_def Let_def split: option.splits list.splits)

lemma transformedMsg_id: "transformedMsg f64 sid e ''id'' = Some (index e ''id'')"
  by (simp add: transformedMsg_def Let_def split: option.splits list.splits)

text \<open>
  C10. For every object entry of the engine's messages value, the transformed message
  at the entry's position carries under \<open>otid\<close> the entry's \<open>id\<close> (nil when the entry has
  none), the same value it carries under \<open>id\<close>.
\<close>

theorem otid_equals_id:
  "i < length (objectEntries messagesData) \<Longrightarrow>
   field (transformGoogleAgentMessages f64 rr now messagesData ! i) ''otid'' =
     Some (index (objectEntries messagesData ! i) ''id'') \<and>
   field (transformGoogleAgentMessages f64 rr now messagesData ! i) ''id'' =
     field (transformGoogleAgentMessages f64 rr now messagesData ! i) ''otid''"
  by (simp add: field_transformed_nth transformedMsg_otid transformedMsg_id)

theorem otid_equals_id_witness:
  "field (ex_transformed ! 3) ''otid'' = Some (GString ''m4'') \<and>
   field (ex_transformed ! 3) ''id'' = Some (GString ''m4'')"
  using otid_equals_id[of 3 ex_messages real_of_int ex_rand ex_now]
  by (simp add: ex_entries ex_transformed_def ex_tool_def index_def)

lemma mapMessageType_roleTag:
  "mapMessageType e =
     (if roleTag e = Some ''ai'' then
        (if toolCallList e = [] then ''assistant_message'' else ''tool_call_message'')
      else if roleTag e = Some ''tool'' then ''tool_return_message''
      else ''user_message'')"
  by (auto simp: mapMessageType_def roleTag_def toolCallList_def index_def
           split: option.splits gval.splits)

lemma transformedMsg_message_type:
  "transformedMsg f64 sid e ''message_type'' = Some (GString (mapMessageType e))"
  by (simp add: transformedMsg_def Let_def split: option.splits list.splits)

lemma transformedMsg_tool_call:
  assumes "roleTag e = Some ''ai''" and "toolCallList e = GMap toolCall # others"
  shows "transformedMsg f64 sid e ''tool_call'' =
     Some (GMap [''name'' \<mapsto> index toolCall ''name'',
                 ''arguments'' \<mapsto> index toolCall ''args'',
                 ''tool_call_id'' \<mapsto> index toolCall ''id''])"
proof -
  from assms have mt: "mapMessageType e = ''tool_call_message''"
    by (simp add: mapMessageType_roleTag)
  from assms(2) have sl: "asSlice (index e ''tool_calls'') = Some (GMap toolCall # others)"
    by (auto simp: toolCallList_def index_def split: option.splits gval.splits)
  show ?thesis
    unfolding transformedMsg_def Let_def mt sl by simp
qed

lemma transformedMsg_no_tool_call:
  assumes "roleTag e = Some ''ai''" and "toolCallList e = first # others" and "asMap first = None"
  shows "transformedMsg f64 sid e ''tool_call'' = None"
proof -
  from assms have mt: "mapMessageType e = ''tool_call_message''"
    by (simp add: mapMessageType_roleTag)
  from assms(2) have sl: "asSlice (index e ''tool_calls'') = Some (first # others)"
    by (auto simp: toolCallList_def index_def split: option.splits gval.splits)
  show ?thesis
    unfolding transformedMsg_def Let_def mt sl by (simp add: assms(3))
qed

lemma ex_roles:
  "roleTag ex_human = Some ''human''" "roleTag ex_ai = Some ''ai''" "toolCallList ex_ai = []"
  "roleTag ex_ai_tools = Some ''ai''" "toolCallList ex_ai_tools = [GMap ex_tool_call]"
  "roleTag ex_tool = Some ''tool''"
  by (simp_all add: roleTag_def toolCallList_def ex_human_def ex_ai_def ex_ai_tools_def ex_tool_def)

text \<open>
  C6, as amended. For every object entry of the engine's messages value, the message
  type of the transformed message at the entry's position is: \<open>user_message\<close> when
  the role tag is human, is missing or no string, or is none of human, ai and tool;
  \<open>assistant_message\<close> when the role tag is ai and there is no non-empty tool-call
  list; \<open>tool_call_message\<close> when the role tag is ai and the tool-call list is not
  empty; \<open>tool_return_message\<close> when the role tag is tool. For a
  \<open>tool_call_message\<close> whose first tool call is an object, \<open>tool_call\<close> holds that
  object's \<open>name\<close>, \<open>args\<close> and \<open>id\<close> under \<open>name\<close>, \<open>arguments\<close> and
  \<open>tool_call_id\<close>; when the first tool call is no object, the message has no
  \<open>tool_call\<close>.
\<close>

theorem message_type_by_role:
  assumes "i < length (objectEntries messagesData)"
    and "entry = objectEntries messagesData ! i"
    and "msg = transformGoogleAgentMessages f64 rr now messagesData ! i"
  shows
   "((roleTag entry = Some ''human'' \<or> roleTag entry = None \<or>
      (\<exists>tag. roleTag entry = Some tag \<and> tag \<notin> {''human'', ''ai'', ''tool''})) \<longrightarrow>
       field msg ''message_type'' = Some (GString ''user_message'')) \<and>
    (roleTag entry = Some ''ai'' \<and> toolCallList entry = [] \<longrightarrow>
       field msg ''message_type'' = Some (GString ''assistant_message'')) \<and>
    (roleTag entry = Some ''ai'' \<and> toolCallList entry \<noteq> [] \<longrightarrow>
       field msg ''message_type'' = Some (GString ''tool_call_message'')) \<and>
    (\<forall>toolCall others. roleTag entry = Some ''ai'' \<and> toolCallList entry = GMap toolCall # others \<longrightarrow>
       field msg ''tool_call'' =
         Some (GMap [''name'' \<mapsto> index toolCall ''name'',
                     ''arguments'' \<mapsto> index toolCall ''args'',
                     ''tool_call_id'' \<mapsto> index toolCall ''id''])) \<and>
    (\<forall>first others. roleTag entry = Some ''ai'' \<and> toolCallList entry = first # others \<and>
       asMap first = None \<longrightarrow> field msg ''tool_call'' = None) \<and>
    (roleTag entry = Some ''tool'' \<longrightarrow>
       field msg ''message_type'' = Some (GString ''tool_return_message''))"
proof -
  have f: "field msg k = transformedMsg f64 (generateStepID (rr i)) entry k" for k
    using assms by (simp add: field_transformed_nth)
  have 1: "(roleTag entry = Some ''human'' \<or> roleTag entry = None \<or>
      (\<exists>tag. roleTag entry = Some tag \<and> tag \<notin> {''human'', ''ai'', ''tool''})) \<longrightarrow>
       field msg ''message_type'' = Some (GString ''user_message'')"
    by (auto simp: f transformedMsg_message_type mapMessageType_roleTag)
  have 2: "roleTag entry = Some ''ai'' \<and> toolCallList entry = [] \<longrightarrow>
       field msg ''message_type'' = Some (GString ''assistant_message'')"
    by (simp add: f transformedMsg_message_type mapMessageType_roleTag)
  have 3: "roleTag entry = Some ''ai'' \<and> toolCallList entry \<noteq> [] \<longrightarrow>
       field msg ''message_type'' = Some (GString ''tool_call_message'')"
    by (simp add: f transformedMsg_message_type mapMessageType_roleTag)
  have 4: "\<forall>toolCall others. roleTag entry = Some ''ai'' \<and> toolCallList entry = GMap toolCall # others \<longrightarrow>
       field msg ''tool_call'' =
         Some (GMap [''name'' \<mapsto> index toolCall ''name'',
                     ''arguments'' \<mapsto> index toolCall ''args'',
                     ''tool_call_id'' \<mapsto> index toolCall ''id''])"
    by (simp add: f transformedMsg_tool_call)
  have 5: "roleTag entry = Some ''tool'' \<longrightarrow>
       field msg ''message_type'' = Some (GString ''tool_return_message'')"
    by (simp add: f transformedMsg_message_type mapMessageType_roleTag)
  have 6: "\<forall>first others. roleTag entry = Some ''ai'' \<and> toolCallList entry = first # others \<and>
       asMap first = None \<longrightarrow> field msg ''tool_call'' = None"
    by (simp add: f transformedMsg_no_tool_call)
  from 1 2 3 4 5 6 show ?thesis by blast
qed

theorem message_type_by_role_witness:
  "field (ex_transformed ! 0) ''message_type'' = Some (GString ''user_message'') \<and>
   field (ex_transformed ! 1) ''message_type'' = Some (GString ''assistant_message'') \<and>
   field (ex_transformed ! 2) ''message_type'' = Some (GString ''tool_call_message'') \<and>
   field (ex_transformed ! 2) ''tool_call'' =
     Some (GMap [''name'' \<mapsto> GString ''search'', ''arguments'' \<mapsto> GMap [''q'' \<mapsto> GString ''rio''],
                 ''tool_call_id'' \<mapsto> GString ''call_1'']) \<and>
   field (ex_transformed ! 3) ''message_type'' = Some (GString ''tool_return_message'')"
  using message_type_by_role[of 0 ex_messages ex_human "ex_transformed ! 0" real_of_int ex_rand ex_now]
        message_type_by_role[of 1 ex_messages ex_ai "ex_transformed ! 1" real_of_int ex_rand ex_now]
        message_type_by_role[of 2 ex_messages ex_ai_tools "ex_transformed ! 2" real_of_int ex_rand ex_now]
        message_type_by_role[of 3 ex_messages ex_tool "ex_transformed ! 3" real_of_int ex_rand ex_now]
  by (simp add: ex_entries ex_transformed_def ex_roles index_def ex_tool_call_def)

text \<open>
  C6 as stated fails: an answer whose tool-call list starts with a value that is no
  object is mapped to \<open>tool_call_message\<close> and gets no \<open>tool_call\<close> at all, although
  the list is not empty.
\<close>

theorem message_type_by_role_counterexample:
  "roleTag ex_ai_stray_tool = Some ''ai'' \<and>
   toolCallList ex_ai_stray_tool = [GString ''x'', GMap ex_tool_call] \<and>
   field (ex_transformed_stray_tool ! 0) ''message_type'' = Some (GString ''tool_call_message'') \<and>
   field (ex_transformed_stray_tool ! 0) ''tool_call'' = None"
proof -
  have e: "objectEntries (GSlice [GMap ex_ai_stray_tool]) = [ex_ai_stray_tool]"
    by (simp add: objectEntries_def map_filter_simps)
  have r: "roleTag ex_ai_stray_tool = Some ''ai''"
    by (simp add: roleTag_def ex_ai_stray_tool_def)
  have l: "toolCallList ex_ai_stray_tool = [GString ''x'', GMap ex_tool_call]"
    by (simp add: toolCallList_def ex_ai_stray_tool_def)
  have f: "field (ex_transformed_stray_tool ! 0) k =
           transformedMsg real_of_int (generateStepID (ex_rand 0)) ex_ai_stray_tool k" for k
    by (simp add: ex_transformed_stray_tool_def field_transformed_nth e)
  have t: "field (ex_transformed_stray_tool ! 0) ''message_type'' =
           Some (GString ''tool_call_message'')"
    by (simp add: f transformedMsg_message_type mapMessageType_roleTag r l)
  have n: "field (ex_transformed_stray_tool ! 0) ''tool_call'' = None"
    unfolding f by (rule transformedMsg_no_tool_call[OF r l]) simp
  from r l t n show ?thesis by simp
qed

lemma transformedMsg_tool_return:
  assumes "roleTag e = Some ''tool''" and "e ''name'' = Some name"
  shows "transformedMsg f64 sid e ''tool_return'' = Some (index e ''content'') \<and>
         transformedMsg f64 sid e ''status'' = Some (GString ''success'') \<and>
         transformedMsg f64 sid e ''tool_call_id'' = Some (index e ''tool_call_id'') \<and>
         transformedMsg f64 sid e ''stdout'' = Some GNil \<and>
         transformedMsg f64 sid e ''stderr'' = Some GNil"
proof -
  from assms have mt: "mapMessageType e = ''tool_return_message''"
    by (simp add: mapMessageType_roleTag)
  show ?thesis
    unfolding transformedMsg_def Let_def mt assms(2) by simp
qed

text \<open>
  C9, as amended. For every object entry that is mapped to \<open>tool_return_message\<close> and
  has a \<open>name\<close> key, the transformed message carries the entry's content under
  \<open>tool_return\<close>, the status success, the entry's \<open>tool_call_id\<close>, and nil under
  \<open>stdout\<close> and \<open>stderr\<close>.
\<close>

theorem tool_return_fields:
  assumes "i < length (objectEntries messagesData)"
    and "entry = objectEntries messagesData ! i"
    and "msg = transformGoogleAgentMessages f64 rr now messagesData ! i"
    and "field msg ''message_type'' = Some (GString ''tool_return_message'')"
    and "entry ''name'' \<noteq> None"
  shows "field msg ''tool_return'' = Some (index entry ''content'') \<and>
         field msg ''status'' = Some (GString ''success'') \<and>
         field msg ''tool_call_id'' = Some (index entry ''tool_call_id'') \<and>
         field msg ''stdout'' = Some GNil \<and>
         field msg ''stderr'' = Some GNil"
proof -
  have f: "field msg k = transformedMsg f64 (generateStepID (rr i)) entry k" for k
    using assms by (simp add: field_transformed_nth)
  from assms(4) have "mapMessageType entry = ''tool_return_message''"
    by (simp add: f transformedMsg_message_type)
  then have r: "roleTag entry = Some ''tool''"
    by (simp add: mapMessageType_roleTag split: if_splits)
  from assms(5) obtain name where "entry ''name'' = Some name" by auto
  from transformedMsg_tool_return[OF r this] show ?thesis by (simp add: f)
qed

theorem tool_return_fields_witness:
  "field (ex_transformed ! 3) ''tool_return'' = Some (GString ''found'') \<and>
   field (ex_transformed ! 3) ''status'' = Some (GString ''success'') \<and>
   field (ex_transformed ! 3) ''tool_call_id'' = Some (GString ''call_1'') \<and>
   field (ex_transformed ! 3) ''stdout'' = Some GNil \<and>
   field (ex_transformed ! 3) ''stderr'' = Some GNil"
proof -
  have t: "field (ex_transformed ! 3) ''message_type'' = Some (GString ''tool_return_message'')"
    by (simp add: ex_transformed_def field_transformed_nth ex_entries transformedMsg_message_type
          mapMessageType_roleTag ex_roles)
  have n: "ex_tool ''name'' \<noteq> None" by (simp add: ex_tool_def)
  from tool_return_fields[of 3 ex_messages ex_tool "ex_transformed ! 3" real_of_int ex_rand ex_now] t n
  show ?thesis
    by (simp add: ex_entries ex_transformed_def index_def ex_tool_def)
qed

text \<open>
  C9 as stated fails: a tool entry without a \<open>name\<close> key is mapped to
  \<open>tool_return_message\<close> and gets none of the five fields.
\<close>

theorem tool_return_fields_counterexample:
  "field (ex_transformed_unnamed ! 0) ''message_type'' = Some (GString ''tool_return_message'') \<and>
   field (ex_transformed_unnamed ! 0) ''tool_return'' = None \<and>
   field (ex_transformed_unnamed ! 0) ''status'' = None \<and>
   field (ex_transformed_unnamed ! 0) ''tool_call_id'' = None \<and>
   field (ex_transformed_unnamed ! 0) ''stdout'' = None \<and>
   field (ex_transformed_unnamed ! 0) ''stderr'' = None"
proof -
  have e: "objectEntries (GSlice [GMap ex_tool_unnamed]) = [ex_tool_unnamed]"
    by (simp add: objectEntries_def map_filter_simps)
  have r: "roleTag ex_tool_unnamed = Some ''tool''" by (simp add: roleTag_def ex_tool_unnamed_def)
  have mt: "mapMessageType ex_tool_unnamed = ''tool_return_message''"
    by (simp add: mapMessageType_roleTag r)
  have n: "ex_tool_unnamed ''name'' = None" by (simp add: ex_tool_unnamed_def)
  have f: "field (ex_transformed_unnamed ! 0) k =
           transformedMsg real_of_int (generateStepID (ex_rand 0)) ex_tool_unnamed k" for k
    by (simp add: ex_transformed_unnamed_def field_transformed_nth e)
  show ?thesis
    unfolding f transformedMsg_def Let_def mt n by simp
qed

section \<open>Usage metadata\<close>

text \<open>
  C5. The nested details are emitted only from a Go int. In a reply decoded by
  encoding/json every number is a float64: the three counters are renamed and kept,
  and \<open>thoughts_token_count\<close> and \<open>cached_content_token_count\<close> are missing although
  \<open>output_token_details.reasoning\<close> and \<open>input_token_details.cache_read\<close> are there.
  From Go ints all five fields are emitted, as float64.
\<close>

theorem usage_details_dropped:
  "field (extractUsageMetadata real_of_int ex_ai) ''prompt_token_count'' = Some (GFloat64 10) \<and>
   field (extractUsageMetadata real_of_int ex_ai) ''candidates_token_count'' = Some (GFloat64 5) \<and>
   field (extractUsageMetadata real_of_int ex_ai) ''total_token_count'' = Some (GFloat64 15) \<and>
   field (extractUsageMetadata real_of_int ex_ai) ''thoughts_token_count'' = None \<and>
   field (extractUsageMetadata real_of_int ex_ai) ''cached_content_token_count'' = None \<and>
   field (extractUsageMetadata real_of_int ex_ai_ints) ''prompt_token_count'' = Some (GFloat64 10) \<and>
   field (extractUsageMetadata real_of_int ex_ai_ints) ''thoughts_token_count'' = Some (GFloat64 3) \<and>
   field (extractUsageMetadata real_of_int ex_ai_ints) ''cached_content_token_count'' =
     Some (GFloat64 2)"
  by (simp add: extractUsageMetadata_def ex_ai_def ex_usage_def ex_ai_ints_def ex_usage_ints_def
        index_def setIfInt_def field_def Let_def)

section \<open>The formatter gate\<close>

lemma formatMessage_skip:
  "nonEmptyContent v = None \<Longrightarrow> formatMessage f v = (v, [])"
  by (cases v)
     (auto simp: formatMessage_def nonEmptyContent_def contentString_def field_def index_def
           split: option.splits gval.splits if_splits)

lemma formatMessage_format:
  assumes "nonEmptyContent v = Some c"
  shows "\<exists>m. v = GMap m \<and>
          formatMessage f v =
            (GMap (m(''content'' \<mapsto> GString (case FormatForWhatsApp f (tempResponse c) of
                                                Inl err \<Rightarrow> c | Inr formatted \<Rightarrow> formatted))),
             [Formatter_FormatForWhatsApp (tempResponse c)])"
  using assms
  by (cases v)
     (auto simp: formatMessage_def nonEmptyContent_def contentString_def field_def index_def
                 tempResponse_def Let_def
           split: option.splits gval.splits if_splits)

lemma formatLoop_fst: "fst (formatLoop f ms) = map (\<lambda>v. fst (formatMessage f v)) ms"
  by (induction ms) (auto simp: Let_def split: prod.splits)

lemma formatLoop_snd: "snd (formatLoop f ms) = concat (map (\<lambda>v. snd (formatMessage f v)) ms)"
  by (induction ms) (auto simp: Let_def split: prod.splits)

lemma formatMessage_calls:
  "snd (formatMessage f v) =
     (case nonEmptyContent v of None \<Rightarrow> []
      | Some c \<Rightarrow> [Formatter_FormatForWhatsApp (tempResponse c)])"
proof (cases "nonEmptyContent v")
  case None
  then show ?thesis by (simp add: formatMessage_skip)
next
  case (Some c)
  from formatMessage_format[OF Some, of f] Some show ?thesis by auto
qed

lemma formatLoop_calls:
  "snd (formatLoop f ms) =
     map (\<lambda>c. Formatter_FormatForWhatsApp (tempResponse c)) (List.map_filter nonEmptyContent ms)"
  unfolding formatLoop_snd
  by (induction ms) (auto simp: map_filter_simps formatMessage_calls split: option.splits)

lemma formatMessage_frame:
  "k \<noteq> ''content'' \<Longrightarrow> field (fst (formatMessage f v)) k = field v k"
proof (cases "nonEmptyContent v")
  case None
  then show ?thesis by (simp add: formatMessage_skip)
next
  case (Some c)
  assume "k \<noteq> ''content''"
  with formatMessage_format[OF Some, of f] show ?thesis
    by (auto simp: field_def)
qed

lemma formatMessage_content:
  "nonEmptyContent v = Some c \<Longrightarrow>
   field (fst (formatMessage f v)) ''content'' =
     Some (GString (case FormatForWhatsApp f (tempResponse c) of Inl err \<Rightarrow> c | Inr formatted \<Rightarrow> formatted))"
  using formatMessage_format[of v c f] by (auto simp: field_def)

text \<open>
  C8. Without a formatter every message passes through unchanged and no call is made.
  With a formatter, the calls are those for the messages whose content is a non-empty
  string, in order, one each; the number of messages stays; every field other than
  \<open>content\<close> is as before; a message without such a content is untouched; on a
  formatting error the content is the original one, and otherwise what the formatter
  returned.
\<close>

theorem formatter_gate:
  "applyWhatsAppFormattingToMessages None messages = (messages, []) \<and>
   snd (applyWhatsAppFormattingToMessages (Some f) messages) =
     map (\<lambda>c. Formatter_FormatForWhatsApp (tempResponse c)) (List.map_filter nonEmptyContent messages) \<and>
   length (fst (applyWhatsAppFormattingToMessages (Some f) messages)) = length messages \<and>
   (\<forall>i k. i < length messages \<and> k \<noteq> ''content'' \<longrightarrow>
      field (fst (applyWhatsAppFormattingToMessages (Some f) messages) ! i) k = field (messages ! i) k) \<and>
   (\<forall>i. i < length messages \<and> nonEmptyContent (messages ! i) = None \<longrightarrow>
      fst (applyWhatsAppFormattingToMessages (Some f) messages) ! i = messages ! i) \<and>
   (\<forall>i c err. i < length messages \<and> nonEmptyContent (messages ! i) = Some c \<and>
        FormatForWhatsApp f (tempResponse c) = Inl err \<longrightarrow>
      field (fst (applyWhatsAppFormattingToMessages (Some f) messages) ! i) ''content'' =
        field (messages ! i) ''content'') \<and>
   (\<forall>i c formatted. i < length messages \<and> nonEmptyContent (messages ! i) = Some c \<and>
        FormatForWhatsApp f (tempResponse c) = Inr formatted \<longrightarrow>
      field (fst (applyWhatsAppFormattingToMessages (Some f) messages) ! i) ''content'' =
        Some (GString formatted))"
proof -
  have a: "applyWhatsAppFormattingToMessages (Some f) messages = formatLoop f messages"
    by (simp add: applyWhatsAppFormattingToMessages_def)
  have c0: "nonEmptyContent v = Some c \<Longrightarrow> field v ''content'' = Some (GString c)" for v :: "'a gval" and c
    by (auto simp: nonEmptyContent_def contentString_def split: option.splits gval.splits if_splits)
  have 1: "applyWhatsAppFormattingToMessages None messages = (messages, [])"
    by (simp add: applyWhatsAppFormattingToMessages_def)
  have 2: "snd (applyWhatsAppFormattingToMessages (Some f) messages) =
     map (\<lambda>c. Formatter_FormatForWhatsApp (tempResponse c)) (List.map_filter nonEmptyContent messages)"
    by (simp add: a formatLoop_calls)
  have 3: "length (fst (applyWhatsAppFormattingToMessages (Some f) messages)) = length messages"
    by (simp add: a formatLoop_fst)
  have 4: "\<forall>i k. i < length messages \<and> k \<noteq> ''content'' \<longrightarrow>
      field (fst (applyWhatsAppFormattingToMessages (Some f) messages) ! i) k = field (messages ! i) k"
    by (simp add: a formatLoop_fst formatMessage_frame)
  have 5: "\<forall>i. i < length messages \<and> nonEmptyContent (messages ! i) = None \<longrightarrow>
      fst (applyWhatsAppFormattingToMessages (Some f) messages) ! i = messages ! i"
    by (simp add: a formatLoop_fst formatMessage_skip)
  have 6: "\<forall>i c err. i < length messages \<and> nonEmptyContent (messages ! i) = Some c \<and>
        FormatForWhatsApp f (tempResponse c) = Inl err \<longrightarrow>
      field (fst (applyWhatsAppFormattingToMessages (Some f) messages) ! i) ''content'' =
        field (messages ! i) ''content''"
    by (simp add: a formatLoop_fst formatMessage_content c0)
  have 7: "\<forall>i c formatted. i < length messages \<and> nonEmptyContent (messages ! i) = Some c \<and>
        FormatForWhatsApp f (tempResponse c) = Inr formatted \<longrightarrow>
      field (fst (applyWhatsAppFormattingToMessages (Some f) messages) ! i) ''content'' =
        Some (GString formatted)"
    by (simp add: a formatLoop_fst formatMessage_content)
  from 1 2 3 4 5 6 7 show ?thesis by blast
qed

lemma field_GMap: "field (GMap m) k = m k"
  by (simp add: field_def)

lemma ex_contents:
  "nonEmptyContent (GMap ex_human) = Some ''hello''"
  "nonEmptyContent (GMap ex_ai) = Some ''hi there''"
  "nonEmptyContent (GMap ex_ai_tools) = None"
  "nonEmptyContent (GString ''noise'' :: real gval) = None"
  by (simp_all add: nonEmptyContent_def contentString_def field_def ex_human_def ex_ai_def ex_ai_tools_def)

theorem formatter_gate_witness:
  "snd ex_formatted = [Formatter_FormatForWhatsApp (tempResponse ''hello''),
                       Formatter_FormatForWhatsApp (tempResponse ''hi there'')] \<and>
   length (fst ex_formatted) = 4 \<and>
   field (fst ex_formatted ! 0) ''content'' = Some (GString ''*hello*'') \<and>
   field (fst ex_formatted ! 0) ''id'' = Some (GString ''m1'') \<and>
   field (fst ex_formatted ! 1) ''content'' = Some (GString ''hi there'') \<and>
   fst ex_formatted ! 2 = GMap ex_ai_tools \<and>
   fst ex_formatted ! 3 = GString ''noise''"
proof -
  note g = formatter_gate[of ex_plain ex_formatter, folded ex_formatted_def]
  have l: "length ex_plain = 4" by (simp add: ex_plain_def)
  have n: "ex_plain ! 0 = GMap ex_human" "ex_plain ! 1 = GMap ex_ai"
          "ex_plain ! 2 = GMap ex_ai_tools" "ex_plain ! 3 = GString ''noise''"
    by (simp_all add: ex_plain_def)
  have f0: "FormatForWhatsApp ex_formatter (tempResponse ''hello'') = Inr ''*hello*''"
    by (simp add: ex_formatter_def tempResponse_def)
  have f1: "FormatForWhatsApp ex_formatter (tempResponse ''hi there'') = Inl (Upstream ''format failed'')"
    by (simp add: ex_formatter_def tempResponse_def)
  from g have 1: "snd ex_formatted = [Formatter_FormatForWhatsApp (tempResponse ''hello''),
                       Formatter_FormatForWhatsApp (tempResponse ''hi there'')]"
    by (simp add: ex_plain_def map_filter_simps ex_contents)
  from g l have 2: "length (fst ex_formatted) = 4" by simp
  from g l n ex_contents f0 have 3: "field (fst ex_formatted ! 0) ''content'' = Some (GString ''*hello*'')"
    by (metis zero_less_numeral)
  from g l n have "field (fst ex_formatted ! 0) ''id'' = field (ex_plain ! 0) ''id''"
    by simp
  then have 4: "field (fst ex_formatted ! 0) ''id'' = Some (GString ''m1'')"
    by (simp add: n field_GMap ex_human_def)
  from g l n ex_contents f1 have "field (fst ex_formatted ! 1) ''content'' = field (ex_plain ! 1) ''content''"
    by (metis one_less_numeral_iff semiring_norm(76))
  then have 5: "field (fst ex_formatted ! 1) ''content'' = Some (GString ''hi there'')"
    using n by (simp add: field_GMap ex_ai_def)
  from g l n ex_contents have 6: "fst ex_formatted ! 2 = GMap ex_ai_tools"
    by simp
  from g l n ex_contents have 7: "fst ex_formatted ! 3 = GString ''noise''"
    by simp
  from 1 2 3 4 5 6 7 show ?thesis by blast
qed

section \<open>The trailing usage statistics\<close>

lemma mapMessageType_not_usage: "mapMessageType e \<noteq> ''usage_statistics''"
  by (simp add: mapMessageType_roleTag)

lemma projected_not_usage:
  "i < length entries \<Longrightarrow>
   field (projected f64 rr n entries ! i) ''message_type'' \<noteq> Some (GString ''usage_statistics'')"
  by (simp add: projected_nth field_def transformedMsg_message_type mapMessageType_not_usage)

lemma usageStats_fields:
  "usageStats now T ''message_type'' = Some (GString ''usage_statistics'')"
  "usageStats now T ''step_count'' = Some (GInt (int (length T)))"
  "usageStats now T ''completion_tokens'' = Some (GInt 0)"
  "usageStats now T ''prompt_tokens'' = Some (GInt 0)"
  "usageStats now T ''total_tokens'' = Some (GInt 0)"
  "usageStats now T ''status'' = Some (GString ''done'')"
  "usageStats now T ''model_names'' = Some (GStrings [])"
  "usageStats now T ''content'' = None"
  by (simp_all add: usageStats_def)

lemma stampAgentID_usage:
  "stampAgentID agentID (T @ [GMap (usageStats now T)]) =
     T @ [GMap ((usageStats now T)(''agent_id'' \<mapsto> GString agentID))]"
  by (simp add: stampAgentID_def usageStats_fields)

lemma stampAgentID_Nil: "stampAgentID agentID [] = []"
  by (simp add: stampAgentID_def)

lemma fst_apply_map:
  "fst (applyWhatsAppFormattingToMessages mf ms) =
     (case mf of None \<Rightarrow> ms | Some f \<Rightarrow> map (\<lambda>v. fst (formatMessage f v)) ms)"
  by (simp add: applyWhatsAppFormattingToMessages_def formatLoop_fst split: option.splits)

lemma apply_frame:
  "i < length ms \<Longrightarrow> k \<noteq> ''content'' \<Longrightarrow>
   field (fst (applyWhatsAppFormattingToMessages mf ms) ! i) k = field (ms ! i) k"
  by (simp add: fst_apply_map formatMessage_frame split: option.splits)

lemma length_apply: "length (fst (applyWhatsAppFormattingToMessages mf ms)) = length ms"
  by (simp add: fst_apply_map split: option.splits)

lemma Messages_buildProcessedData:
  "Messages (fst (buildProcessedData env deps msg outputMap)) =
     fst (applyWhatsAppFormattingToMessages (MessageFormatter deps)
            (stampAgentID (''user_'' @ UserNumber msg)
               (case outputMap ''messages'' of
                  Some messagesArray \<Rightarrow>
                    transformGoogleAgentMessages (float64 env) (randRead env) (timeNow env) messagesArray
                | None \<Rightarrow> [])))"
  by (simp add: buildProcessedData_def Let_def split: prod.splits)

lemma processUserMessage_marshals:
  assumes "fst (processUserMessage env deps msg) = Inr processed"
  shows "\<exists>engine thread agentResponse outputMap.
           GoogleAgentService deps = Some engine \<and>
           SendMessage engine thread (fst (resolveMessage (TranscribeService deps) (Message msg))) =
             Inr agentResponse \<and>
           parseOutput env (Content agentResponse) = Inr outputMap \<and>
           marshalProcessed env (fst (buildProcessedData env deps msg outputMap)) = Inr processed"
  using assms
  by (auto simp: processUserMessage_def processAgentResponse_def Let_def
           split: if_splits option.splits sum.splits prod.splits)
     (metis fst_conv)

text \<open>
  C3, as amended. A successfully processed message is the marshalling of the record
  built from the \<open>output\<close> object of the engine's reply. When that output has a
  \<open>messages\<close> field that is not null,
  the final message sequence is the transformed messages, one per object entry,
  followed by one usage-statistics record: its \<open>step_count\<close> is the number of messages
  before it, its token counters are zero, its status is done, its \<open>model_names\<close> is
  the empty list, and no message before it is a usage-statistics record. When the
  output has no \<open>messages\<close> field, or a null one, the final sequence is empty.
\<close>

theorem trailing_usage_record:
  assumes "msgs = Messages (fst (buildProcessedData env deps msg outputMap))"
  shows "(\<forall>processed. fst (processUserMessage env deps msg) = Inr processed \<longrightarrow>
            (\<exists>engine thread agentResponse parsedOutput.
               GoogleAgentService deps = Some engine \<and>
               SendMessage engine thread
                 (fst (resolveMessage (TranscribeService deps) (Message msg))) = Inr agentResponse \<and>
               parseOutput env (Content agentResponse) = Inr parsedOutput \<and>
               marshalProcessed env (fst (buildProcessedData env deps msg parsedOutput)) =
                 Inr processed)) \<and>
         (\<forall>messagesArray. outputMap ''messages'' = Some messagesArray \<and> messagesArray \<noteq> GNil \<longrightarrow>
            length msgs = length (objectEntries messagesArray) + 1 \<and>
            usageRecord (last msgs) (length msgs - 1) \<and>
            (\<forall>i. i < length msgs - 1 \<longrightarrow>
               field (msgs ! i) ''message_type'' \<noteq> Some (GString ''usage_statistics''))) \<and>
         (outputMap ''messages'' = None \<or> outputMap ''messages'' = Some GNil \<longrightarrow> msgs = [])"
proof -
  have A: "length msgs = length (objectEntries messagesArray) + 1 \<and>
            usageRecord (last msgs) (length msgs - 1) \<and>
            (\<forall>i. i < length msgs - 1 \<longrightarrow>
               field (msgs ! i) ''message_type'' \<noteq> Some (GString ''usage_statistics''))"
    if m: "outputMap ''messages'' = Some messagesArray" and nn: "messagesArray \<noteq> GNil"
    for messagesArray
  proof -
    define T where "T = projected (float64 env) (randRead env) 0 (objectEntries messagesArray)"
    define S where "S = T @ [GMap ((usageStats (timeNow env) T)(''agent_id'' \<mapsto> GString (''user_'' @ UserNumber msg)))]"
    have msgs: "msgs = fst (applyWhatsAppFormattingToMessages (MessageFormatter deps) S)"
      unfolding assms Messages_buildProcessedData m S_def T_def
      by (simp add: transformGoogleAgentMessages_projected[OF nn] stampAgentID_usage)
    have lS: "length S = length (objectEntries messagesArray) + 1"
      by (simp add: S_def T_def length_projected)
    have lT: "length T = length (objectEntries messagesArray)"
      by (simp add: T_def length_projected)
    have len: "length msgs = length (objectEntries messagesArray) + 1"
      by (simp add: msgs length_apply lS)
    have ne: "msgs \<noteq> []" using len by auto
    have lastidx: "last msgs = msgs ! length T"
      using len lT by (simp add: last_conv_nth[OF ne])
    have fr: "field (msgs ! i) k = field (S ! i) k" if "i < length S" "k \<noteq> ''content''" for i k
      using that by (simp add: msgs apply_frame)
    have Sl: "S ! length T = GMap ((usageStats (timeNow env) T)(''agent_id'' \<mapsto> GString (''user_'' @ UserNumber msg)))"
      by (simp add: S_def)
    have u: "usageRecord (last msgs) (length msgs - 1)"
      unfolding usageRecord_def lastidx
      using Sl by (simp add: fr lS lT field_GMap usageStats_fields len)
    have p: "field (msgs ! i) ''message_type'' \<noteq> Some (GString ''usage_statistics'')"
      if "i < length msgs - 1" for i
    proof -
      from that len lT have i: "i < length T" by simp
      then have "S ! i = T ! i" by (simp add: S_def nth_append)
      moreover from i have "field (msgs ! i) ''message_type'' = field (S ! i) ''message_type''"
        by (simp add: fr lS lT)
      ultimately show ?thesis
        using i projected_not_usage[of i "objectEntries messagesArray" "float64 env" "randRead env" 0]
        by (simp add: T_def length_projected)
    qed
    from len u p show ?thesis by blast
  qed
  have B: "msgs = []" if "outputMap ''messages'' = None \<or> outputMap ''messages'' = Some GNil"
    using that unfolding assms Messages_buildProcessedData
    by (auto simp: transformGoogleAgentMessages_def stampAgentID_Nil fst_apply_map split: option.splits)
  have C: "\<forall>processed. fst (processUserMessage env deps msg) = Inr processed \<longrightarrow>
            (\<exists>engine thread agentResponse parsedOutput.
               GoogleAgentService deps = Some engine \<and>
               SendMessage engine thread
                 (fst (resolveMessage (TranscribeService deps) (Message msg))) = Inr agentResponse \<and>
               parseOutput env (Content agentResponse) = Inr parsedOutput \<and>
               marshalProcessed env (fst (buildProcessedData env deps msg parsedOutput)) =
                 Inr processed)"
    using processUserMessage_marshals by blast
  from A B C show ?thesis by blast
qed

lemma ex_env_fields:
  "float64 ex_env = real_of_int" "randRead ex_env = ex_rand" "timeNow ex_env = ex_now"
  "unmarshalQueueMessage ex_env = ex_unmarshalQueueMessage"
  "unmarshalMap ex_env = ex_unmarshalMap" "marshalProcessed ex_env = ex_marshal"
  by (simp_all add: ex_env_def)

lemma ex_deps_fields:
  "Config ex_deps = \<lparr>TaskStatusTTL = 3600, TaskResultTTL = 7200\<rparr>"
  "GoogleAgentService ex_deps = Some ex_engine"
  "TranscribeService ex_deps = Some ex_transcriber"
  "MessageFormatter ex_deps = Some ex_formatter"
  "OTelWorkerWrapper ex_deps = None"
  by (simp_all add: ex_deps_def)

lemma ex_chat_entries:
  "objectEntries ex_chat =
     [[''type'' \<mapsto> GString ''human'', ''content'' \<mapsto> GString ''hello''],
      [''type'' \<mapsto> GString ''ai'', ''content'' \<mapsto> GString ''hi there'']]"
  by (simp add: objectEntries_def ex_chat_def map_filter_simps)

theorem trailing_usage_record_witness:
  "length ex_final = 3 \<and> usageRecord (last ex_final) 2 \<and>
   field (ex_final ! 0) ''message_type'' \<noteq> Some (GString ''usage_statistics'') \<and>
   field (ex_final ! 1) ''message_type'' \<noteq> Some (GString ''usage_statistics'') \<and>
   ex_final_bare = []"
proof -
  have o: "ex_output ''messages'' = Some ex_chat" "ex_chat \<noteq> GNil"
    by (simp_all add: ex_output_def ex_chat_def)
  have b: "ex_output_bare ''messages'' = None" by (simp add: ex_output_bare_def)
  from trailing_usage_record[OF ex_final_def] o
  have g: "length ex_final = length (objectEntries ex_chat) + 1 \<and>
     usageRecord (last ex_final) (length ex_final - 1) \<and>
     (\<forall>i. i < length ex_final - 1 \<longrightarrow>
        field (ex_final ! i) ''message_type'' \<noteq> Some (GString ''usage_statistics''))"
    by blast
  then have l: "length ex_final = 3" by (simp add: ex_chat_entries)
  from g have 1: "usageRecord (last ex_final) 2 \<and>
     field (ex_final ! 0) ''message_type'' \<noteq> Some (GString ''usage_statistics'') \<and>
     field (ex_final ! 1) ''message_type'' \<noteq> Some (GString ''usage_statistics'')"
    unfolding l by simp
  from trailing_usage_record[OF ex_final_bare_def] b have 2: "ex_final_bare = []" by simp
  from l 1 2 show ?thesis by simp
qed

lemma ex_clean_bare: "cleanedResponse ex_bare_text = ex_bare_text"
  by (simp add: cleanedResponse_def ex_bare_text_def quoted_def ReplaceAll_def TrimSpace_def
        TrimLeft.simps TrimRight.simps leadingSpace_def trailingSpace_def whiteSpace_def
        suffix_to_prefix)

text \<open>
  C3 as stated fails where the engine's output has no \<open>messages\<close> field: the message
  is processed successfully, and the record that is marshalled has no messages at
  all, so no usage-statistics record either.
\<close>

theorem trailing_usage_record_counterexample:
  "parseOutput ex_env (Content \<lparr>Content = ex_bare_text, MessageID = ''r2'', ThreadID = ''thread_5521''\<rparr>) =
     Inr ex_output_bare \<and>
   ex_output_bare ''messages'' = None \<and>
   fst (processUserMessage ex_env ex_deps ex_msg_bare) =
     ex_marshal \<lparr>Messages = [], AgentID = ''user_5521'', ProcessedAt = ''t5'', Status = ''done''\<rparr> \<and>
   \<not> isl (fst (processUserMessage ex_env ex_deps ex_msg_bare))"
proof -
  have d: "ex_bare_text \<noteq> ex_reply_clean"
    by (simp add: ex_bare_text_def ex_reply_clean_def quoted_def)
  have p: "parseOutput ex_env ex_bare_text = Inr ex_output_bare"
    by (simp add: parseOutput_def ex_clean_bare ex_env_fields ex_unmarshalMap_def d)
  have b: "buildProcessedData ex_env ex_deps ex_msg_bare ex_output_bare =
           (\<lparr>Messages = [], AgentID = ''user_5521'', ProcessedAt = ''t5'', Status = ''done''\<rparr>, [])"
    by (simp add: buildProcessedData_def ex_output_bare_def stampAgentID_def
          applyWhatsAppFormattingToMessages_def ex_deps_fields ex_msg_bare_def)
  have r: "processAgentResponse ex_env ex_deps ex_msg_bare
             \<lparr>Content = ex_bare_text, MessageID = ''r2'', ThreadID = ''thread_5521''\<rparr> =
           (ex_marshal \<lparr>Messages = [], AgentID = ''user_5521'', ProcessedAt = ''t5'', Status = ''done''\<rparr>, [])"
  proof -
    obtain bytes where t: "ex_marshal \<lparr>Messages = [], AgentID = ''user_5521'', ProcessedAt = ''t5'',
                                     Status = ''done''\<rparr> = Inr bytes"
      by (simp add: ex_marshal_def)
    show ?thesis
      by (simp add: processAgentResponse_def p b ex_env_fields t)
  qed
  have a: "\<not> isAudioURL ''Ajuda''"
    by (simp add: isAudioURL_def audioExtensions_def ToLower_def toLowerByte_def suffix_to_prefix)
  have u: "fst (processUserMessage ex_env ex_deps ex_msg_bare) =
     ex_marshal \<lparr>Messages = [], AgentID = ''user_5521'', ProcessedAt = ''t5'', Status = ''done''\<rparr>"
  proof -
    have m: "Provider ex_msg_bare = ''google_agent_engine''" "Message ex_msg_bare = ''Ajuda''"
            "UserNumber ex_msg_bare = ''5521''"
      by (simp_all add: ex_msg_bare_def)
    have v: "validateMessage (Some ex_formatter) ''Ajuda'' = (None, [Formatter_ValidateMessageContent ''Ajuda''])"
      by (simp add: validateMessage_def ex_formatter_def)
    have e: "GetOrCreateThread ex_engine ''5521'' = Inr ''thread_5521''"
            "SendMessage ex_engine ''thread_5521'' ''Ajuda'' =
               Inr \<lparr>Content = ex_bare_text, MessageID = ''r2'', ThreadID = ''thread_5521''\<rparr>"
      by (simp_all add: ex_engine_def)
    show ?thesis
      by (simp add: processUserMessage_def m ex_deps_fields resolveMessage_def a v e r)
  qed
  show ?thesis
    using p u by (simp add: ex_output_bare_def ex_marshal_def)
qed

section \<open>Facts about the string functions\<close>

lemma whiteSpace_nonempty: "w \<in> set whiteSpace \<Longrightarrow> w \<noteq> []"
  by (auto simp: whiteSpace_def)

lemma leadingSpace_0_iff: "leadingSpace s = 0 \<longleftrightarrow> (\<forall>w \<in> set whiteSpace. \<not> prefix w s)"
  by (auto simp: leadingSpace_def find_None_iff split: option.splits
           dest!: find_Some_iff[THEN iffD1] dest: whiteSpace_nonempty nth_mem)

lemma trailingSpace_0_iff: "trailingSpace s = 0 \<longleftrightarrow> (\<forall>w \<in> set whiteSpace. \<not> suffix w s)"
  by (auto simp: trailingSpace_def find_None_iff split: option.splits
           dest!: find_Some_iff[THEN iffD1] dest: whiteSpace_nonempty nth_mem)

lemma leadingSpace_split:
  assumes "leadingSpace s \<noteq> 0"
  shows "\<exists>w. w \<in> set whiteSpace \<and> s = w @ drop (leadingSpace s) s"
proof -
  from assms obtain w where f: "find (\<lambda>w. prefix w s) whiteSpace = Some w"
    by (auto simp: leadingSpace_def split: option.splits)
  then have "w \<in> set whiteSpace" and "prefix w s"
    by (auto simp: find_Some_iff)
  moreover from f have "leadingSpace s = length w" by (simp add: leadingSpace_def)
  ultimately show ?thesis by (auto simp: prefix_def)
qed

lemma trailingSpace_split:
  assumes "trailingSpace s \<noteq> 0"
  shows "\<exists>w. w \<in> set whiteSpace \<and> s = take (length s - trailingSpace s) s @ w"
proof -
  from assms obtain w where f: "find (\<lambda>w. suffix w s) whiteSpace = Some w"
    by (auto simp: trailingSpace_def split: option.splits)
  then have "w \<in> set whiteSpace" and "suffix w s"
    by (auto simp: find_Some_iff)
  moreover from f have "trailingSpace s = length w" by (simp add: trailingSpace_def)
  ultimately show ?thesis by (auto simp: suffix_def)
qed

lemma TrimLeft_decomp: "\<exists>ws. set ws \<subseteq> set whiteSpace \<and> s = concat ws @ TrimLeft s"
proof (induction s rule: TrimLeft.induct)
  case (1 s)
  show ?case
  proof (cases "leadingSpace s = 0")
    case True
    then have "TrimLeft s = s" by (simp add: TrimLeft.simps)
    then show ?thesis by (intro exI[of _ "[]"]) simp
  next
    case False
    from leadingSpace_split[OF False] obtain w where
      w: "w \<in> set whiteSpace" "s = w @ drop (leadingSpace s) s" by blast
    from 1[OF False] obtain ws where
      ws: "set ws \<subseteq> set whiteSpace"
          "drop (leadingSpace s) s = concat ws @ TrimLeft (drop (leadingSpace s) s)" by blast
    from False have t: "TrimLeft s = TrimLeft (drop (leadingSpace s) s)"
      by (subst TrimLeft.simps) simp
    have "s = concat (w # ws) @ TrimLeft s"
      using w(2) ws(2) unfolding t by (metis append.assoc concat.simps(2))
    with w(1) ws(1) show ?thesis by (intro exI[of _ "w # ws"]) simp
  qed
qed

lemma TrimRight_decomp: "\<exists>ws. set ws \<subseteq> set whiteSpace \<and> s = TrimRight s @ concat ws"
proof (induction s rule: TrimRight.induct)
  case (1 s)
  show ?case
  proof (cases "trailingSpace s = 0")
    case True
    then have "TrimRight s = s" by (simp add: TrimRight.simps)
    then show ?thesis by (intro exI[of _ "[]"]) simp
  next
    case False
    let ?s' = "take (length s - trailingSpace s) s"
    from trailingSpace_split[OF False] obtain w where
      w: "w \<in> set whiteSpace" "s = ?s' @ w" by blast
    from 1[OF False] obtain ws where
      ws: "set ws \<subseteq> set whiteSpace" "?s' = TrimRight ?s' @ concat ws" by blast
    from False have t: "TrimRight s = TrimRight ?s'"
      by (subst TrimRight.simps) simp
    have "s = TrimRight s @ concat (ws @ [w])"
      using w(2) ws(2) unfolding t by (metis append.assoc append_Nil2 concat.simps concat_append)
    with w(1) ws(1) show ?thesis by (intro exI[of _ "ws @ [w]"]) simp
  qed
qed

lemma leadingSpace_TrimLeft: "leadingSpace (TrimLeft s) = 0"
  by (induction s rule: TrimLeft.induct) (subst TrimLeft.simps, simp)

lemma trailingSpace_TrimRight: "trailingSpace (TrimRight s) = 0"
  by (induction s rule: TrimRight.induct) (subst TrimRight.simps, simp)

lemma prefix_TrimRight: "prefix (TrimRight s) s"
  using TrimRight_decomp[of s] by (metis prefixI)

lemma leadingSpace_TrimRight: "leadingSpace s = 0 \<Longrightarrow> leadingSpace (TrimRight s) = 0"
  unfolding leadingSpace_0_iff using prefix_TrimRight[of s] by (meson prefix_order.trans)

lemma whiteSpace_prefix_free_all:
  "list_all (\<lambda>w. list_all (\<lambda>w'. \<not> prefix w w' \<or> w = w') whiteSpace) whiteSpace"
  unfolding whiteSpace_def by code_simp

lemma whiteSpace_prefix_free:
  "w \<in> set whiteSpace \<Longrightarrow> w' \<in> set whiteSpace \<Longrightarrow> prefix w w' \<Longrightarrow> w = w'"
  using whiteSpace_prefix_free_all by (auto simp: list_all_iff)

lemma leadingSpace_ws:
  assumes w: "w \<in> set whiteSpace"
  shows "leadingSpace (w @ r) = length w"
proof -
  have "\<exists>x \<in> set whiteSpace. prefix x (w @ r)"
    using w by (intro bexI[of _ w]) simp_all
  then obtain w' where f: "find (\<lambda>x. prefix x (w @ r)) whiteSpace = Some w'"
    by (cases "find (\<lambda>x. prefix x (w @ r)) whiteSpace") (auto simp: find_None_iff)
  then have w': "w' \<in> set whiteSpace" "prefix w' (w @ r)"
    by (auto simp: find_Some_iff)
  have "prefix w (w @ r)" by simp
  from prefix_same_cases[OF this w'(2)] have "prefix w w' \<or> prefix w' w" .
  with w w'(1) have "w' = w" by (auto dest: whiteSpace_prefix_free)
  with f show ?thesis by (simp add: leadingSpace_def)
qed


lemma TrimLeft_Nil: "TrimLeft [] = []"
  by (subst TrimLeft.simps) (simp add: leadingSpace_def whiteSpace_def)

lemma TrimRight_Nil: "TrimRight [] = []"
  by (subst TrimRight.simps) (simp add: trailingSpace_def whiteSpace_def)

lemma TrimLeft_concat: "set ws \<subseteq> set whiteSpace \<Longrightarrow> TrimLeft (concat ws @ r) = TrimLeft r"
proof (induction ws)
  case Nil
  show ?case by simp
next
  case (Cons w ws)
  then have w: "w \<in> set whiteSpace" and ws: "set ws \<subseteq> set whiteSpace" by auto
  have l: "leadingSpace (w @ concat ws @ r) = length w" by (rule leadingSpace_ws[OF w])
  from whiteSpace_nonempty[OF w] have "length w \<noteq> 0" by simp
  then have "TrimLeft (w @ concat ws @ r) = TrimLeft (concat ws @ r)"
    by (subst TrimLeft.simps) (simp add: l)
  with Cons.IH[OF ws] show ?case by simp
qed

lemma TrimSpace_empty_iff: "TrimSpace s = [] \<longleftrightarrow> whitespaceOnly s"
proof
  assume e: "TrimSpace s = []"
  from TrimLeft_decomp[of s] obtain ws where
    ws: "set ws \<subseteq> set whiteSpace" "s = concat ws @ TrimLeft s" by blast
  from TrimRight_decomp[of "TrimLeft s"] obtain ws' where
    ws': "set ws' \<subseteq> set whiteSpace" "TrimLeft s = TrimRight (TrimLeft s) @ concat ws'" by blast
  from e ws'(2) have "TrimLeft s = concat ws'" by (simp add: TrimSpace_def)
  with ws(2) have "s = concat (ws @ ws')" by simp
  with ws(1) ws'(1) show "whitespaceOnly s"
    unfolding whitespaceOnly_def by (intro exI[of _ "ws @ ws'"]) simp
next
  assume "whitespaceOnly s"
  then obtain ws where ws: "set ws \<subseteq> set whiteSpace" "s = concat ws"
    by (auto simp: whitespaceOnly_def)
  from TrimLeft_concat[OF ws(1), of "[]"] ws(2) have "TrimLeft s = []"
    by (simp add: TrimLeft_Nil)
  then show "TrimSpace s = []" by (simp add: TrimSpace_def TrimRight_Nil)
qed

lemma TrimSpace_decomp:
  "\<exists>l r. whitespaceOnly l \<and> whitespaceOnly r \<and> s = l @ TrimSpace s @ r"
proof -
  from TrimLeft_decomp[of s] obtain ws where
    ws: "set ws \<subseteq> set whiteSpace" "s = concat ws @ TrimLeft s" by blast
  from TrimRight_decomp[of "TrimLeft s"] obtain ws' where
    ws': "set ws' \<subseteq> set whiteSpace" "TrimLeft s = TrimRight (TrimLeft s) @ concat ws'" by blast
  have "whitespaceOnly (concat ws)" "whitespaceOnly (concat ws')"
    using ws(1) ws'(1) by (auto simp: whitespaceOnly_def)
  moreover have "s = concat ws @ TrimSpace s @ concat ws'"
    using ws(2) ws'(2) by (simp add: TrimSpace_def)
  ultimately show ?thesis by blast
qed

lemma ReplaceAll_filter: "ReplaceAll s c [] = filter (\<lambda>x. x \<noteq> c) s"
  by (induction s) (simp_all add: ReplaceAll_def)

lemma suffix_iff_drop:
  "suffix xs ys \<longleftrightarrow> length xs \<le> length ys \<and> drop (length ys - length xs) ys = xs"
  by (auto simp: suffix_def) (metis append_take_drop_id)

lemma audioLoop_list_ex: "audioLoop url exts = list_ex (\<lambda>ext. suffix ext (ToLower url)) exts"
  by (induction exts) auto

lemma isAudioURL_audioReference: "isAudioURL url \<longleftrightarrow> audioReference url"
  by (simp add: isAudioURL_def audioReference_def audioLoop_list_ex endsWithIgnoringCase_def
        suffix_iff_drop ToLower_def drop_map cong: list_ex_cong)

section \<open>The audio gate and the calls of the pipeline\<close>

lemma sideCall_not_send: "list_all sideCall cs \<Longrightarrow> Engine_SendMessage t m \<notin> set cs"
  by (auto simp: list_all_iff)

lemma resolveMessage_calls: "resolveMessage ts txt = (m, tt, cs) \<Longrightarrow> list_all sideCall cs"
  by (auto simp: resolveMessage_def split: if_splits option.splits sum.splits)

lemma validateMessage_calls: "validateMessage mf m = (r, cs) \<Longrightarrow> list_all sideCall cs"
  by (auto simp: validateMessage_def split: option.splits)

lemma applyWhatsApp_calls:
  "list_all sideCall (snd (applyWhatsAppFormattingToMessages mf ms))"
  by (cases mf) (simp_all add: applyWhatsAppFormattingToMessages_def formatLoop_calls list_all_iff)

lemma snd_buildProcessedData:
  "snd (buildProcessedData env deps msg outputMap) =
     snd (applyWhatsAppFormattingToMessages (MessageFormatter deps)
            (stampAgentID (''user_'' @ UserNumber msg)
               (case outputMap ''messages'' of
                  Some messagesArray \<Rightarrow>
                    transformGoogleAgentMessages (float64 env) (randRead env) (timeNow env) messagesArray
                | None \<Rightarrow> [])))"
  by (simp add: buildProcessedData_def Let_def split: prod.splits)

lemma buildProcessedData_calls:
  assumes "buildProcessedData env deps msg outputMap = (d, cs)"
  shows "list_all sideCall cs"
proof -
  have "list_all sideCall (snd (buildProcessedData env deps msg outputMap))"
    unfolding snd_buildProcessedData by (rule applyWhatsApp_calls)
  with assms show ?thesis by simp
qed

lemma processAgentResponse_calls:
  "processAgentResponse env deps msg r = (res, cs) \<Longrightarrow> list_all sideCall cs"
  by (auto simp: processAgentResponse_def Let_def split: sum.splits prod.splits
           dest: buildProcessedData_calls)

lemma processUserMessage_sent:
  "Engine_SendMessage thread sent \<in> set (snd (processUserMessage env deps msg)) \<Longrightarrow>
   sent = fst (resolveMessage (TranscribeService deps) (Message msg))"
  by (auto simp: processUserMessage_def Let_def
           split: if_splits option.splits sum.splits prod.splits
           dest: resolveMessage_calls validateMessage_calls processAgentResponse_calls
                 sideCall_not_send)

lemma processUserMessage_sends:
  assumes "Provider msg = ''google_agent_engine''"
    and "GoogleAgentService deps = Some engine"
    and "fst (validateMessage (MessageFormatter deps)
                (fst (resolveMessage (TranscribeService deps) (Message msg)))) = None"
    and "GetOrCreateThread engine (UserNumber msg) = Inr thread"
  shows "Engine_SendMessage thread (fst (resolveMessage (TranscribeService deps) (Message msg)))
           \<in> set (snd (processUserMessage env deps msg))"
  using assms
  by (auto simp: processUserMessage_def Let_def split: option.splits sum.splits prod.splits)

text \<open>
  C4. A text is taken for an audio reference exactly when it ends, letter case
  ignored, with one of the seven audio extensions. A text that is none passes through
  unchanged. For an audio reference the effective text is the fallback literal when
  there is no transcriber, when the transcription fails, and when the transcript is
  empty, made of white space only, or the sentinel; otherwise it is the transcript.
  The effective text is what the engine is sent: no other text is ever sent, and it is
  sent once provider, engine, validation and thread are in order.
\<close>

theorem audio_gate:
  "(isAudioURL txt \<longleftrightarrow> audioReference txt) \<and>
   (\<not> audioReference txt \<longrightarrow> fst (resolveMessage ts txt) = txt) \<and>
   (audioReference txt \<and> ts = None \<longrightarrow> fst (resolveMessage ts txt) = fallbackText) \<and>
   (\<forall>service err. audioReference txt \<and> ts = Some service \<and>
       TranscribeAudio service txt = Inl err \<longrightarrow>
       fst (resolveMessage ts txt) = fallbackText) \<and>
   (\<forall>service transcript. audioReference txt \<and> ts = Some service \<and>
       TranscribeAudio service txt = Inr transcript \<and>
       (transcript = [] \<or> whitespaceOnly transcript \<or> transcript = noRecognizableContent) \<longrightarrow>
       fst (resolveMessage ts txt) = fallbackText) \<and>
   (\<forall>service transcript. audioReference txt \<and> ts = Some service \<and>
       TranscribeAudio service txt = Inr transcript \<and>
       transcript \<noteq> [] \<and> \<not> whitespaceOnly transcript \<and> transcript \<noteq> noRecognizableContent \<longrightarrow>
       fst (resolveMessage ts txt) = transcript) \<and>
   (\<forall>thread sent. Engine_SendMessage thread sent \<in> set (snd (processUserMessage env deps msg)) \<longrightarrow>
       sent = fst (resolveMessage (TranscribeService deps) (Message msg))) \<and>
   (\<forall>engine thread. Provider msg = ''google_agent_engine'' \<and>
       GoogleAgentService deps = Some engine \<and>
       fst (validateMessage (MessageFormatter deps)
              (fst (resolveMessage (TranscribeService deps) (Message msg)))) = None \<and>
       GetOrCreateThread engine (UserNumber msg) = Inr thread \<longrightarrow>
       Engine_SendMessage thread (fst (resolveMessage (TranscribeService deps) (Message msg)))
         \<in> set (snd (processUserMessage env deps msg)))"
proof -
  have 1: "isAudioURL txt \<longleftrightarrow> audioReference txt" by (rule isAudioURL_audioReference)
  have 2: "\<not> audioReference txt \<longrightarrow> fst (resolveMessage ts txt) = txt"
    by (simp add: resolveMessage_def 1)
  have 3: "audioReference txt \<and> ts = None \<longrightarrow> fst (resolveMessage ts txt) = fallbackText"
    by (simp add: resolveMessage_def 1)
  have 4: "\<forall>service err. audioReference txt \<and> ts = Some service \<and>
       TranscribeAudio service txt = Inl err \<longrightarrow>
       fst (resolveMessage ts txt) = fallbackText"
    by (simp add: resolveMessage_def 1)
  have 5: "\<forall>service transcript. audioReference txt \<and> ts = Some service \<and>
       TranscribeAudio service txt = Inr transcript \<and>
       (transcript = [] \<or> whitespaceOnly transcript \<or> transcript = noRecognizableContent) \<longrightarrow>
       fst (resolveMessage ts txt) = fallbackText"
    by (auto simp: resolveMessage_def 1 TrimSpace_empty_iff)
  have 6: "\<forall>service transcript. audioReference txt \<and> ts = Some service \<and>
       TranscribeAudio service txt = Inr transcript \<and>
       transcript \<noteq> [] \<and> \<not> whitespaceOnly transcript \<and> transcript \<noteq> noRecognizableContent \<longrightarrow>
       fst (resolveMessage ts txt) = transcript"
    by (auto simp: resolveMessage_def 1 TrimSpace_empty_iff)
  have 7: "\<forall>thread sent. Engine_SendMessage thread sent \<in> set (snd (processUserMessage env deps msg)) \<longrightarrow>
       sent = fst (resolveMessage (TranscribeService deps) (Message msg))"
    by (auto dest: processUserMessage_sent)
  have 8: "\<forall>engine thread. Provider msg = ''google_agent_engine'' \<and>
       GoogleAgentService deps = Some engine \<and>
       fst (validateMessage (MessageFormatter deps)
              (fst (resolveMessage (TranscribeService deps) (Message msg)))) = None \<and>
       GetOrCreateThread engine (UserNumber msg) = Inr thread \<longrightarrow>
       Engine_SendMessage thread (fst (resolveMessage (TranscribeService deps) (Message msg)))
         \<in> set (snd (processUserMessage env deps msg))"
    by (auto intro: processUserMessage_sends)
  from 1 2 3 4 5 6 7 8 show ?thesis by blast
qed

lemma ex_audio:
  "audioReference ''http://x/voice.mp3''" "audioReference ''http://x/blank.WAV''"
  "audioReference ''http://x/noise.ogg''" "audioReference ''http://x/speech.M4a''"
  "audioReference ''http://x/gone.flac''" "\<not> audioReference ''see voice.mp3 please''"
  by code_simp+

lemma ex_transcripts:
  "TranscribeAudio ex_transcriber ''http://x/voice.mp3'' = Inr []"
  "TranscribeAudio ex_transcriber ''http://x/blank.WAV'' = Inr ('' '' @ [CHR 0xC2, CHR 0xA0, CHR 0x09])"
  "TranscribeAudio ex_transcriber ''http://x/noise.ogg'' = Inr noRecognizableContent"
  "TranscribeAudio ex_transcriber ''http://x/speech.M4a'' = Inr ''hello''"
  "TranscribeAudio ex_transcriber ''http://x/gone.flac'' = Inl (Upstream ''download failed'')"
  by (simp_all add: ex_transcriber_def)

lemma ex_blank: "whitespaceOnly ('' '' @ [CHR 0xC2, CHR 0xA0, CHR 0x09])"
  unfolding whitespaceOnly_def
  by (intro exI[of _ "['' '', [CHR 0xC2, CHR 0xA0], [CHR 0x09]]"]) (simp add: whiteSpace_def)

lemma ex_hello: "\<not> whitespaceOnly ''hello''" "''hello'' \<noteq> noRecognizableContent"
  unfolding TrimSpace_empty_iff[symmetric]
  by (simp_all add: TrimSpace_def TrimLeft.simps TrimRight.simps leadingSpace_def
        trailingSpace_def whiteSpace_def suffix_to_prefix noRecognizableContent_def)

theorem audio_gate_witness:
  "fst (resolveMessage (Some ex_transcriber) ''see voice.mp3 please'') = ''see voice.mp3 please'' \<and>
   fst (resolveMessage None ''http://x/voice.mp3'') = ''Ajuda'' \<and>
   fst (resolveMessage (Some ex_transcriber) ''http://x/gone.flac'') = ''Ajuda'' \<and>
   fst (resolveMessage (Some ex_transcriber) ''http://x/voice.mp3'') = ''Ajuda'' \<and>
   fst (resolveMessage (Some ex_transcriber) ''http://x/blank.WAV'') = ''Ajuda'' \<and>
   fst (resolveMessage (Some ex_transcriber) ''http://x/noise.ogg'') = ''Ajuda'' \<and>
   fst (resolveMessage (Some ex_transcriber) ''http://x/speech.M4a'') = ''hello'' \<and>
   Engine_SendMessage ''thread_5521'' ''Ajuda'' \<in> set (snd (processUserMessage ex_env ex_deps ex_msg_audio))"
proof -
  note g = audio_gate[where env = ex_env and deps = ex_deps and msg = ex_msg_audio]
  from g[of "''see voice.mp3 please''" "Some ex_transcriber"] ex_audio
  have 1: "fst (resolveMessage (Some ex_transcriber) ''see voice.mp3 please'') = ''see voice.mp3 please''"
    by blast
  from g[of "''http://x/voice.mp3''" None] ex_audio
  have 2: "fst (resolveMessage None ''http://x/voice.mp3'') = ''Ajuda''"
    by (simp add: fallbackText_def)
  from g[of "''http://x/gone.flac''" "Some ex_transcriber"] ex_audio ex_transcripts
  have 3: "fst (resolveMessage (Some ex_transcriber) ''http://x/gone.flac'') = ''Ajuda''"
    by (simp add: fallbackText_def)
  from g[of "''http://x/voice.mp3''" "Some ex_transcriber"] ex_audio ex_transcripts
  have 4: "fst (resolveMessage (Some ex_transcriber) ''http://x/voice.mp3'') = ''Ajuda''"
    by (simp add: fallbackText_def)
  from g[of "''http://x/blank.WAV''" "Some ex_transcriber"] ex_audio ex_transcripts ex_blank
  have 5: "fst (resolveMessage (Some ex_transcriber) ''http://x/blank.WAV'') = ''Ajuda''"
    by (simp add: fallbackText_def)
  from g[of "''http://x/noise.ogg''" "Some ex_transcriber"] ex_audio ex_transcripts
  have 6: "fst (resolveMessage (Some ex_transcriber) ''http://x/noise.ogg'') = ''Ajuda''"
    by (simp add: fallbackText_def)
  from g[of "''http://x/speech.M4a''" "Some ex_transcriber"] ex_audio ex_transcripts ex_hello
  have 7: "fst (resolveMessage (Some ex_transcriber) ''http://x/speech.M4a'') = ''hello''"
    by simp
  have m: "Provider ex_msg_audio = ''google_agent_engine''"
          "Message ex_msg_audio = ''http://x/voice.mp3''" "UserNumber ex_msg_audio = ''5521''"
    by (simp_all add: ex_msg_audio_def)
  have v: "fst (validateMessage (Some ex_formatter) ''Ajuda'') = None"
    by (simp add: validateMessage_def ex_formatter_def)
  have t: "GetOrCreateThread ex_engine ''5521'' = Inr ''thread_5521''"
    by (simp add: ex_engine_def)
  from g[of "''http://x/voice.mp3''" "Some ex_transcriber"] m v t 4
  have 8: "Engine_SendMessage ''thread_5521'' ''Ajuda'' \<in> set (snd (processUserMessage ex_env ex_deps ex_msg_audio))"
    by (simp add: ex_deps_fields)
  from 1 2 3 4 5 6 7 8 show ?thesis by blast
qed

section \<open>The handler\<close>

lemma sideCall_not_result: "list_all sideCall cs \<Longrightarrow> c \<in> set cs \<Longrightarrow> \<not> resultWrite c"
  by (cases c) (auto simp: list_all_iff)

lemma processUserMessage_no_result_write:
  "c \<in> set (snd (processUserMessage env deps msg)) \<Longrightarrow> \<not> resultWrite c"
  by (auto simp: processUserMessage_def Let_def
           split: if_splits option.splits sum.splits prod.splits
           dest: resolveMessage_calls validateMessage_calls processAgentResponse_calls
                 sideCall_not_result)

lemma taskOutcome_eq:
  "taskOutcome env deps queueMsg =
     (case fst (processUserMessage env deps queueMsg) of Inl e \<Rightarrow> [] | Inr r \<Rightarrow> r,
      tracedError deps (taskError (fst (processUserMessage env deps queueMsg))),
      snd (processUserMessage env deps queueMsg))"
  by (simp add: taskOutcome_def tracedError_def taskError_def Let_def
           split: prod.splits option.splits)

lemma handler_malformed:
  "unmarshalQueueMessage env (Body delivery) = Inl err \<Longrightarrow>
   CreateUserMessageHandler env deps delivery = (Some err, [])"
  by (simp add: CreateUserMessageHandler_def)

lemma handler_failed:
  assumes "unmarshalQueueMessage env (Body delivery) = Inr queueMsg"
    and "tracedError deps (taskError (fst (processUserMessage env deps queueMsg))) = Some e"
  shows "CreateUserMessageHandler env deps delivery =
     (None,
      [Redis_SetTaskStatus (ID queueMsg) TaskStatusProcessing (TaskStatusTTL (Config deps))] @
      snd (processUserMessage env deps queueMsg) @
      [Redis_Set (''task:error:'' @ ID queueMsg) (Error e) (TaskStatusTTL (Config deps)),
       Redis_SetTaskStatus (ID queueMsg) TaskStatusFailed (TaskStatusTTL (Config deps))])"
  using assms by (simp add: CreateUserMessageHandler_def taskOutcome_eq)

lemma handler_completed:
  assumes "unmarshalQueueMessage env (Body delivery) = Inr queueMsg"
    and "tracedError deps (taskError (fst (processUserMessage env deps queueMsg))) = None"
  shows "CreateUserMessageHandler env deps delivery =
     (None,
      [Redis_SetTaskStatus (ID queueMsg) TaskStatusProcessing (TaskStatusTTL (Config deps))] @
      snd (processUserMessage env deps queueMsg) @
      [Redis_SetTaskResult (ID queueMsg)
         (case fst (processUserMessage env deps queueMsg) of Inl e \<Rightarrow> [] | Inr r \<Rightarrow> r)
         (TaskResultTTL (Config deps)),
       Redis_SetTaskStatus (ID queueMsg) TaskStatusCompleted (TaskStatusTTL (Config deps))])"
  using assms by (simp add: CreateUserMessageHandler_def taskOutcome_eq)

lemma handler_nil:
  "unmarshalQueueMessage env (Body delivery) = Inr queueMsg \<Longrightarrow>
   fst (CreateUserMessageHandler env deps delivery) = None"
  by (cases "tracedError deps (taskError (fst (processUserMessage env deps queueMsg)))")
     (simp_all add: handler_failed handler_completed)

lemma tracedError_plain: "OTelWorkerWrapper deps = None \<Longrightarrow> tracedError deps err = err"
  by (simp add: tracedError_def)

text \<open>
  C1. For a delivery whose body deserializes into a queue message the handler returns
  nil, whatever the processing does. When the processing ends in an error (the error
  the handler sees, after the tracing wrapper if there is one), the handler has set
  the status processing, made the calls of the processing, written the error's text
  under the error key and set the status failed, in this order. The handler returns
  an error only for a body that fails to deserialize, and then makes no call. Without
  a tracing wrapper the error the handler sees is the error of processUserMessage.
\<close>

theorem handler_reports_success:
  "(\<forall>queueMsg. unmarshalQueueMessage env (Body delivery) = Inr queueMsg \<longrightarrow>
      fst (CreateUserMessageHandler env deps delivery) = None) \<and>
   (\<forall>err. unmarshalQueueMessage env (Body delivery) = Inl err \<longrightarrow>
      CreateUserMessageHandler env deps delivery = (Some err, [])) \<and>
   (\<forall>queueMsg e. unmarshalQueueMessage env (Body delivery) = Inr queueMsg \<and>
      tracedError deps (taskError (fst (processUserMessage env deps queueMsg))) = Some e \<longrightarrow>
      CreateUserMessageHandler env deps delivery =
        (None,
         [Redis_SetTaskStatus (ID queueMsg) TaskStatusProcessing (TaskStatusTTL (Config deps))] @
         snd (processUserMessage env deps queueMsg) @
         [Redis_Set (''task:error:'' @ ID queueMsg) (Error e) (TaskStatusTTL (Config deps)),
          Redis_SetTaskStatus (ID queueMsg) TaskStatusFailed (TaskStatusTTL (Config deps))])) \<and>
   (\<forall>queueMsg e. OTelWorkerWrapper deps = None \<and>
      fst (processUserMessage env deps queueMsg) = Inl e \<longrightarrow>
      tracedError deps (taskError (fst (processUserMessage env deps queueMsg))) = Some e)"
proof -
  have 1: "\<forall>queueMsg. unmarshalQueueMessage env (Body delivery) = Inr queueMsg \<longrightarrow>
      fst (CreateUserMessageHandler env deps delivery) = None"
    by (auto dest: handler_nil)
  have 2: "\<forall>err. unmarshalQueueMessage env (Body delivery) = Inl err \<longrightarrow>
      CreateUserMessageHandler env deps delivery = (Some err, [])"
    by (auto dest: handler_malformed)
  have 3: "\<forall>queueMsg e. unmarshalQueueMessage env (Body delivery) = Inr queueMsg \<and>
      tracedError deps (taskError (fst (processUserMessage env deps queueMsg))) = Some e \<longrightarrow>
      CreateUserMessageHandler env deps delivery =
        (None,
         [Redis_SetTaskStatus (ID queueMsg) TaskStatusProcessing (TaskStatusTTL (Config deps))] @
         snd (processUserMessage env deps queueMsg) @
         [Redis_Set (''task:error:'' @ ID queueMsg) (Error e) (TaskStatusTTL (Config deps)),
          Redis_SetTaskStatus (ID queueMsg) TaskStatusFailed (TaskStatusTTL (Config deps))])"
    using handler_failed by blast
  have 4: "\<forall>queueMsg e. OTelWorkerWrapper deps = None \<and>
      fst (processUserMessage env deps queueMsg) = Inl e \<longrightarrow>
      tracedError deps (taskError (fst (processUserMessage env deps queueMsg))) = Some e"
    by (simp add: tracedError_plain taskError_def)
  from 1 2 3 4 show ?thesis by blast
qed

text \<open>
  C2. For a message whose provider is not \<open>google_agent_engine\<close>, processUserMessage
  returns the error that names the provider and makes no call at all, so none on the
  engine; the handler, seeing an error, writes its text under the error key and sets
  the status failed. Without a tracing wrapper the error it sees is that error.
\<close>

theorem unsupported_provider:
  assumes "Provider msg \<noteq> ''google_agent_engine''"
  shows "processUserMessage env deps msg = (Inl (UnsupportedProvider (Provider msg)), []) \<and>
     Error (UnsupportedProvider (Provider msg)) =
       ''unsupported provider: '' @ Provider msg @
       '' (currently only 'google_agent_engine' is supported)'' \<and>
     (\<forall>c. c \<in> set (snd (processUserMessage env deps msg)) \<longrightarrow> \<not> engineCall c) \<and>
     (\<forall>delivery e. unmarshalQueueMessage env (Body delivery) = Inr msg \<and>
        tracedError deps (Some (UnsupportedProvider (Provider msg))) = Some e \<longrightarrow>
        CreateUserMessageHandler env deps delivery =
          (None,
           [Redis_SetTaskStatus (ID msg) TaskStatusProcessing (TaskStatusTTL (Config deps)),
            Redis_Set (''task:error:'' @ ID msg) (Error e) (TaskStatusTTL (Config deps)),
            Redis_SetTaskStatus (ID msg) TaskStatusFailed (TaskStatusTTL (Config deps))])) \<and>
     (OTelWorkerWrapper deps = None \<longrightarrow>
        tracedError deps (Some (UnsupportedProvider (Provider msg))) =
          Some (UnsupportedProvider (Provider msg)))"
proof -
  from assms have p: "processUserMessage env deps msg = (Inl (UnsupportedProvider (Provider msg)), [])"
    by (simp add: processUserMessage_def)
  have h: "CreateUserMessageHandler env deps delivery =
          (None,
           [Redis_SetTaskStatus (ID msg) TaskStatusProcessing (TaskStatusTTL (Config deps)),
            Redis_Set (''task:error:'' @ ID msg) (Error e) (TaskStatusTTL (Config deps)),
            Redis_SetTaskStatus (ID msg) TaskStatusFailed (TaskStatusTTL (Config deps))])"
    if "unmarshalQueueMessage env (Body delivery) = Inr msg"
      and "tracedError deps (Some (UnsupportedProvider (Provider msg))) = Some e"
    for delivery e
    using handler_failed[of env delivery msg deps e] that by (simp add: p taskError_def)
  show ?thesis
    using p h by (simp add: tracedError_plain)
qed

section \<open>Cleaning and parsing the reply\<close>

lemma cleanedResponse_filter:
  "cleanedResponse content = TrimSpace (filter (\<lambda>c. c \<noteq> CHR 0x0A \<and> c \<noteq> CHR 0x0D) content)"
  by (simp add: cleanedResponse_def ReplaceAll_filter conj_commute)

lemma set_TrimSpace: "set (TrimSpace s) \<subseteq> set s"
proof -
  from TrimSpace_decomp[of s] obtain l r where "s = l @ TrimSpace s @ r" by blast
  then have "set s = set l \<union> set (TrimSpace s) \<union> set r" by (metis set_append sup_assoc)
  then show ?thesis by blast
qed

lemma cleanedResponse_no_breaks:
  "CHR 0x0A \<notin> set (cleanedResponse content) \<and> CHR 0x0D \<notin> set (cleanedResponse content)"
  using set_TrimSpace[of "filter (\<lambda>c. c \<noteq> CHR 0x0A \<and> c \<noteq> CHR 0x0D) content"]
  unfolding cleanedResponse_filter by auto

lemma cleanedResponse_trimmed:
  "leadingSpace (cleanedResponse content) = 0 \<and> trailingSpace (cleanedResponse content) = 0"
  by (simp add: cleanedResponse_def TrimSpace_def leadingSpace_TrimRight leadingSpace_TrimLeft
        trailingSpace_TrimRight)

lemma parseOutput_fails_iff:
  "isl (parseOutput env content) \<longleftrightarrow>
     isl (unmarshalMap env (cleanedResponse content)) \<or>
     (\<exists>parsed. unmarshalMap env (cleanedResponse content) = Inr parsed \<and>
        (parsed ''output'' = None \<or>
         (\<exists>output. parsed ''output'' = Some output \<and> asMap output = None)))"
  by (auto simp: parseOutput_def split: sum.splits option.splits)

lemma parseOutput_parseFailure: "parseOutput env content = Inl err \<Longrightarrow> parseFailure err"
  by (auto simp: parseOutput_def split: sum.splits option.splits)

lemma processAgentResponse_parse_error:
  "parseOutput env (Content agentResponse) = Inl err \<Longrightarrow>
   processAgentResponse env deps msg agentResponse = (Inl err, [])"
  by (simp add: processAgentResponse_def)

lemma processUserMessage_reply:
  assumes "Provider msg = ''google_agent_engine''"
    and "GoogleAgentService deps = Some engine"
    and "message = fst (resolveMessage (TranscribeService deps) (Message msg))"
    and "fst (validateMessage (MessageFormatter deps) message) = None"
    and "GetOrCreateThread engine (UserNumber msg) = Inr thread"
    and "SendMessage engine thread message = Inr agentResponse"
  shows "fst (processUserMessage env deps msg) = fst (processAgentResponse env deps msg agentResponse)"
  using assms
  by (auto simp: processUserMessage_def Let_def split: option.splits sum.splits prod.splits)

text \<open>
  C7. The payload handed to the JSON decoder is the raw payload without its line feeds
  and carriage returns and without the white space around what is left: it holds no
  line feed and no carriage return, neither starts nor ends with a white-space rune,
  and differs from the raw payload without the line breaks only by white space at the
  two ends. Parsing fails exactly when the decoder rejects the cleaned payload as no
  object, or the decoded object has no \<open>output\<close> field, or that field is no object;
  the error is then one of the three parsing errors. Such an error of a reply becomes
  the error of processUserMessage; the handler that sees it writes no result and ends
  by setting the status failed.
\<close>

theorem response_parsing:
  "CHR 0x0A \<notin> set (cleanedResponse content) \<and> CHR 0x0D \<notin> set (cleanedResponse content) \<and>
   leadingSpace (cleanedResponse content) = 0 \<and> trailingSpace (cleanedResponse content) = 0 \<and>
   (\<exists>l r. whitespaceOnly l \<and> whitespaceOnly r \<and>
      filter (\<lambda>c. c \<noteq> CHR 0x0A \<and> c \<noteq> CHR 0x0D) content = l @ cleanedResponse content @ r) \<and>
   (isl (parseOutput env content) \<longleftrightarrow>
      isl (unmarshalMap env (cleanedResponse content)) \<or>
      (\<exists>parsed. unmarshalMap env (cleanedResponse content) = Inr parsed \<and>
         (parsed ''output'' = None \<or>
          (\<exists>output. parsed ''output'' = Some output \<and> asMap output = None)))) \<and>
   (\<forall>err. parseOutput env content = Inl err \<longrightarrow> parseFailure err) \<and>
   (\<forall>engine thread agentResponse err.
      Provider msg = ''google_agent_engine'' \<and> GoogleAgentService deps = Some engine \<and>
      fst (validateMessage (MessageFormatter deps)
             (fst (resolveMessage (TranscribeService deps) (Message msg)))) = None \<and>
      GetOrCreateThread engine (UserNumber msg) = Inr thread \<and>
      SendMessage engine thread (fst (resolveMessage (TranscribeService deps) (Message msg))) =
        Inr agentResponse \<and>
      parseOutput env (Content agentResponse) = Inl err \<longrightarrow>
      fst (processUserMessage env deps msg) = Inl err) \<and>
   (\<forall>delivery err e c.
      unmarshalQueueMessage env (Body delivery) = Inr msg \<and>
      fst (processUserMessage env deps msg) = Inl err \<and> parseFailure err \<and>
      tracedError deps (Some err) = Some e \<and>
      c \<in> set (snd (CreateUserMessageHandler env deps delivery)) \<longrightarrow>
      \<not> resultWrite c) \<and>
   (\<forall>delivery err e.
      unmarshalQueueMessage env (Body delivery) = Inr msg \<and>
      fst (processUserMessage env deps msg) = Inl err \<and> parseFailure err \<and>
      tracedError deps (Some err) = Some e \<longrightarrow>
      last (snd (CreateUserMessageHandler env deps delivery)) =
        Redis_SetTaskStatus (ID msg) TaskStatusFailed (TaskStatusTTL (Config deps)))"
proof -
  have 1: "CHR 0x0A \<notin> set (cleanedResponse content) \<and> CHR 0x0D \<notin> set (cleanedResponse content)"
    by (rule cleanedResponse_no_breaks)
  have 2: "leadingSpace (cleanedResponse content) = 0 \<and> trailingSpace (cleanedResponse content) = 0"
    by (rule cleanedResponse_trimmed)
  have 3: "\<exists>l r. whitespaceOnly l \<and> whitespaceOnly r \<and>
      filter (\<lambda>c. c \<noteq> CHR 0x0A \<and> c \<noteq> CHR 0x0D) content = l @ cleanedResponse content @ r"
    unfolding cleanedResponse_filter by (rule TrimSpace_decomp)
  have 4: "isl (parseOutput env content) \<longleftrightarrow>
      isl (unmarshalMap env (cleanedResponse content)) \<or>
      (\<exists>parsed. unmarshalMap env (cleanedResponse content) = Inr parsed \<and>
         (parsed ''output'' = None \<or>
          (\<exists>output. parsed ''output'' = Some output \<and> asMap output = None)))"
    by (rule parseOutput_fails_iff)
  have 5: "\<forall>err. parseOutput env content = Inl err \<longrightarrow> parseFailure err"
    by (auto dest: parseOutput_parseFailure)
  have 6: "\<forall>engine thread agentResponse err.
      Provider msg = ''google_agent_engine'' \<and> GoogleAgentService deps = Some engine \<and>
      fst (validateMessage (MessageFormatter deps)
             (fst (resolveMessage (TranscribeService deps) (Message msg)))) = None \<and>
      GetOrCreateThread engine (UserNumber msg) = Inr thread \<and>
      SendMessage engine thread (fst (resolveMessage (TranscribeService deps) (Message msg))) =
        Inr agentResponse \<and>
      parseOutput env (Content agentResponse) = Inl err \<longrightarrow>
      fst (processUserMessage env deps msg) = Inl err"
  proof (intro allI impI)
    fix engine thread agentResponse err
    assume a: "Provider msg = ''google_agent_engine'' \<and> GoogleAgentService deps = Some engine \<and>
      fst (validateMessage (MessageFormatter deps)
             (fst (resolveMessage (TranscribeService deps) (Message msg)))) = None \<and>
      GetOrCreateThread engine (UserNumber msg) = Inr thread \<and>
      SendMessage engine thread (fst (resolveMessage (TranscribeService deps) (Message msg))) =
        Inr agentResponse \<and>
      parseOutput env (Content agentResponse) = Inl err"
    then have "fst (processUserMessage env deps msg) =
               fst (processAgentResponse env deps msg agentResponse)"
      using processUserMessage_reply[OF _ _ refl, of msg deps engine thread agentResponse env]
      by blast
    with a show "fst (processUserMessage env deps msg) = Inl err"
      by (simp add: processAgentResponse_parse_error)
  qed
  have h: "CreateUserMessageHandler env deps delivery =
        (None,
         [Redis_SetTaskStatus (ID msg) TaskStatusProcessing (TaskStatusTTL (Config deps))] @
         snd (processUserMessage env deps msg) @
         [Redis_Set (''task:error:'' @ ID msg) (Error e) (TaskStatusTTL (Config deps)),
          Redis_SetTaskStatus (ID msg) TaskStatusFailed (TaskStatusTTL (Config deps))])"
    if "unmarshalQueueMessage env (Body delivery) = Inr msg"
      and "fst (processUserMessage env deps msg) = Inl err"
      and "tracedError deps (Some err) = Some e"
    for delivery err e
    using handler_failed[of env delivery msg deps e] that by (simp add: taskError_def)
  have 7: "\<forall>delivery err e c.
      unmarshalQueueMessage env (Body delivery) = Inr msg \<and>
      fst (processUserMessage env deps msg) = Inl err \<and> parseFailure err \<and>
      tracedError deps (Some err) = Some e \<and>
      c \<in> set (snd (CreateUserMessageHandler env deps delivery)) \<longrightarrow>
      \<not> resultWrite c"
    by (auto simp: h dest: processUserMessage_no_result_write)
  have 8: "\<forall>delivery err e.
      unmarshalQueueMessage env (Body delivery) = Inr msg \<and>
      fst (processUserMessage env deps msg) = Inl err \<and> parseFailure err \<and>
      tracedError deps (Some err) = Some e \<longrightarrow>
      last (snd (CreateUserMessageHandler env deps delivery)) =
        Redis_SetTaskStatus (ID msg) TaskStatusFailed (TaskStatusTTL (Config deps))"
    by (auto simp: h)
  from 1 2 3 4 5 6 7 8 show ?thesis by blast
qed

section \<open>The example run\<close>

lemma ex_bodies:
  "unmarshalQueueMessage ex_env (Body ex_delivery) = Inr ex_msg"
  "unmarshalQueueMessage ex_env (Body ex_delivery_broken) = Inr ex_msg_broken"
  "unmarshalQueueMessage ex_env (Body ex_delivery_openai) = Inr ex_msg_openai"
  "unmarshalQueueMessage ex_env (Body ex_delivery_malformed) = Inl (Upstream ''unexpected end of JSON input'')"
  by (simp_all add: ex_env_fields ex_unmarshalQueueMessage_def ex_delivery_def ex_delivery_broken_def
        ex_delivery_openai_def ex_delivery_malformed_def ex_body_def quoted_def
        ex_msg_def ex_msg_audio_def ex_msg_broken_def ex_msg_bare_def ex_msg_openai_def)

lemma ex_broken_fields:
  "Provider ex_msg_broken = ''google_agent_engine''" "Message ex_msg_broken = ''broken''"
  "UserNumber ex_msg_broken = ''5521''" "ID ex_msg_broken = ''t3''"
  by (simp_all add: ex_msg_broken_def)

lemma ex_broken_resolve: "resolveMessage (Some ex_transcriber) ''broken'' = (''broken'', None, [])"
proof -
  have "\<not> isAudioURL ''broken''" by code_simp
  then show ?thesis by (simp add: resolveMessage_def)
qed

lemma ex_broken_validate:
  "validateMessage (Some ex_formatter) ''broken'' = (None, [Formatter_ValidateMessageContent ''broken''])"
  by (simp add: validateMessage_def ex_formatter_def)

lemma ex_broken_engine:
  "GetOrCreateThread ex_engine ''5521'' = Inr ''thread_5521''"
  "SendMessage ex_engine ''thread_5521'' ''broken'' =
     Inr \<lparr>Content = ''<html>'', MessageID = ''r3'', ThreadID = ''thread_5521''\<rparr>"
  by (simp_all add: ex_engine_def)

lemma ex_broken_parse:
  "parseOutput ex_env ''<html>'' = Inl (FailedToParseJSON (Upstream ''invalid character''))"
proof -
  have c: "cleanedResponse ''<html>'' = ''<html>''"
    by (simp add: cleanedResponse_def ReplaceAll_def TrimSpace_def TrimLeft.simps TrimRight.simps
          leadingSpace_def trailingSpace_def whiteSpace_def suffix_to_prefix)
  have d: "''<html>'' \<noteq> ex_reply_clean" "''<html>'' \<noteq> ex_bare_text"
    by (simp_all add: ex_reply_clean_def ex_bare_text_def quoted_def)
  show ?thesis
    by (simp add: parseOutput_def c ex_env_fields ex_unmarshalMap_def d)
qed

lemma ex_broken_run:
  "processUserMessage ex_env ex_deps ex_msg_broken =
     (Inl (FailedToParseJSON (Upstream ''invalid character'')),
      [Formatter_ValidateMessageContent ''broken'', Engine_GetOrCreateThread ''5521'',
       Engine_SendMessage ''thread_5521'' ''broken''])"
  by (simp add: processUserMessage_def ex_broken_fields ex_deps_fields ex_broken_resolve
        ex_broken_validate ex_broken_engine processAgentResponse_def ex_broken_parse)

lemma ex_deps_ttl: "TaskStatusTTL (Config ex_deps) = 3600" "TaskResultTTL (Config ex_deps) = 7200"
  by (simp_all add: ex_deps_fields)

theorem handler_reports_success_witness:
  "CreateUserMessageHandler ex_env ex_deps ex_delivery_broken =
     (None,
      [Redis_SetTaskStatus ''t3'' TaskStatusProcessing 3600,
       Formatter_ValidateMessageContent ''broken'', Engine_GetOrCreateThread ''5521'',
       Engine_SendMessage ''thread_5521'' ''broken'',
       Redis_Set ''task:error:t3'' ''failed to parse AI response JSON: invalid character'' 3600,
       Redis_SetTaskStatus ''t3'' TaskStatusFailed 3600]) \<and>
   CreateUserMessageHandler ex_env ex_deps ex_delivery_malformed =
     (Some (Upstream ''unexpected end of JSON input''), [])"
proof -
  have t: "tracedError ex_deps (taskError (fst (processUserMessage ex_env ex_deps ex_msg_broken))) =
           Some (FailedToParseJSON (Upstream ''invalid character''))"
    by (simp add: ex_broken_run taskError_def tracedError_def ex_deps_fields)
  from handler_reports_success[of ex_env ex_delivery_broken ex_deps] ex_bodies(2) t
  have 1: "CreateUserMessageHandler ex_env ex_deps ex_delivery_broken =
     (None,
      [Redis_SetTaskStatus (ID ex_msg_broken) TaskStatusProcessing (TaskStatusTTL (Config ex_deps))] @
      snd (processUserMessage ex_env ex_deps ex_msg_broken) @
      [Redis_Set (''task:error:'' @ ID ex_msg_broken)
         (Error (FailedToParseJSON (Upstream ''invalid character''))) (TaskStatusTTL (Config ex_deps)),
       Redis_SetTaskStatus (ID ex_msg_broken) TaskStatusFailed (TaskStatusTTL (Config ex_deps))])"
    by blast
  from handler_reports_success[of ex_env ex_delivery_malformed ex_deps] ex_bodies(4)
  have 2: "CreateUserMessageHandler ex_env ex_deps ex_delivery_malformed =
     (Some (Upstream ''unexpected end of JSON input''), [])"
    by blast
  from 1 2 show ?thesis
    by (simp add: ex_broken_run ex_broken_fields ex_deps_ttl)
qed

theorem unsupported_provider_witness:
  "processUserMessage ex_env ex_deps ex_msg_openai = (Inl (UnsupportedProvider ''openai''), []) \<and>
   CreateUserMessageHandler ex_env ex_deps ex_delivery_openai =
     (None,
      [Redis_SetTaskStatus ''t4'' TaskStatusProcessing 3600,
       Redis_Set ''task:error:t4''
         ''unsupported provider: openai (currently only 'google_agent_engine' is supported)'' 3600,
       Redis_SetTaskStatus ''t4'' TaskStatusFailed 3600])"
proof -
  have p: "Provider ex_msg_openai = ''openai''" "ID ex_msg_openai = ''t4''"
    by (simp_all add: ex_msg_openai_def)
  have n: "Provider ex_msg_openai \<noteq> ''google_agent_engine''" by (simp add: p)
  note g = unsupported_provider[OF n, of ex_env ex_deps]
  from g have 1: "processUserMessage ex_env ex_deps ex_msg_openai = (Inl (UnsupportedProvider ''openai''), [])"
    by (simp add: p)
  from g ex_deps_fields(5) have t: "tracedError ex_deps (Some (UnsupportedProvider (Provider ex_msg_openai))) =
          Some (UnsupportedProvider (Provider ex_msg_openai))"
    by blast
  from g ex_bodies(3) t have "CreateUserMessageHandler ex_env ex_deps ex_delivery_openai =
          (None,
           [Redis_SetTaskStatus (ID ex_msg_openai) TaskStatusProcessing (TaskStatusTTL (Config ex_deps)),
            Redis_Set (''task:error:'' @ ID ex_msg_openai) (Error (UnsupportedProvider (Provider ex_msg_openai)))
              (TaskStatusTTL (Config ex_deps)),
            Redis_SetTaskStatus (ID ex_msg_openai) TaskStatusFailed (TaskStatusTTL (Config ex_deps))])"
    by blast
  then have 2: "CreateUserMessageHandler ex_env ex_deps ex_delivery_openai =
     (None,
      [Redis_SetTaskStatus ''t4'' TaskStatusProcessing 3600,
       Redis_Set ''task:error:t4''
         ''unsupported provider: openai (currently only 'google_agent_engine' is supported)'' 3600,
       Redis_SetTaskStatus ''t4'' TaskStatusFailed 3600])"
    by (simp add: p ex_deps_ttl)
  from 1 2 show ?thesis by simp
qed

lemma ex_reply_cleaned: "cleanedResponse ex_reply_text = ex_reply_clean"
  by (simp add: cleanedResponse_def ex_reply_text_def ex_reply_clean_def quoted_def ReplaceAll_def
        TrimSpace_def TrimLeft.simps TrimRight.simps leadingSpace_def trailingSpace_def
        whiteSpace_def suffix_to_prefix)

theorem response_parsing_witness:
  "CHR 0x0A \<notin> set ex_reply_clean \<and> CHR 0x0D \<notin> set ex_reply_clean \<and>
   leadingSpace ex_reply_clean = 0 \<and> trailingSpace ex_reply_clean = 0 \<and>
   isl (parseOutput ex_env ''<html>'') \<and>
   fst (processUserMessage ex_env ex_deps ex_msg_broken) =
     Inl (FailedToParseJSON (Upstream ''invalid character'')) \<and>
   filter resultWrite (snd (CreateUserMessageHandler ex_env ex_deps ex_delivery_broken)) = [] \<and>
   last (snd (CreateUserMessageHandler ex_env ex_deps ex_delivery_broken)) =
     Redis_SetTaskStatus ''t3'' TaskStatusFailed 3600"
proof -
  note g = response_parsing[of ex_reply_text ex_env ex_msg_broken ex_deps, unfolded ex_reply_cleaned]
  note h = response_parsing[of "''<html>''" ex_env ex_msg_broken ex_deps]
  from g have 1: "CHR 0x0A \<notin> set ex_reply_clean \<and> CHR 0x0D \<notin> set ex_reply_clean \<and>
     leadingSpace ex_reply_clean = 0 \<and> trailingSpace ex_reply_clean = 0"
    by blast
  have u: "isl (unmarshalMap ex_env (cleanedResponse ''<html>''))"
    using ex_broken_parse by (auto simp: parseOutput_def split: sum.splits option.splits)
  from h u have 2: "isl (parseOutput ex_env ''<html>'')" by blast
  have "Provider ex_msg_broken = ''google_agent_engine'' \<and>
        GoogleAgentService ex_deps = Some ex_engine \<and>
        fst (validateMessage (MessageFormatter ex_deps)
               (fst (resolveMessage (TranscribeService ex_deps) (Message ex_msg_broken)))) = None \<and>
        GetOrCreateThread ex_engine (UserNumber ex_msg_broken) = Inr ''thread_5521'' \<and>
        SendMessage ex_engine ''thread_5521''
          (fst (resolveMessage (TranscribeService ex_deps) (Message ex_msg_broken))) =
          Inr \<lparr>Content = ''<html>'', MessageID = ''r3'', ThreadID = ''thread_5521''\<rparr> \<and>
        parseOutput ex_env (Content \<lparr>Content = ''<html>'', MessageID = ''r3'', ThreadID = ''thread_5521''\<rparr>) =
          Inl (FailedToParseJSON (Upstream ''invalid character''))"
    by (simp add: ex_broken_fields ex_deps_fields ex_broken_resolve ex_broken_validate
          ex_broken_engine ex_broken_parse)
  with h have 3: "fst (processUserMessage ex_env ex_deps ex_msg_broken) =
     Inl (FailedToParseJSON (Upstream ''invalid character''))"
    by blast
  have t: "tracedError ex_deps (Some (FailedToParseJSON (Upstream ''invalid character''))) =
           Some (FailedToParseJSON (Upstream ''invalid character''))"
    by (simp add: tracedError_def ex_deps_fields)
  have pf: "parseFailure (FailedToParseJSON (Upstream ''invalid character''))" by simp
  from h ex_bodies(2) 3 pf t
  have "\<forall>c. c \<in> set (snd (CreateUserMessageHandler ex_env ex_deps ex_delivery_broken)) \<longrightarrow>
          \<not> resultWrite c"
    by blast
  then have 4: "filter resultWrite (snd (CreateUserMessageHandler ex_env ex_deps ex_delivery_broken)) = []"
    by (simp add: filter_empty_conv)
  from h ex_bodies(2) 3 pf t
  have "last (snd (CreateUserMessageHandler ex_env ex_deps ex_delivery_broken)) =
     Redis_SetTaskStatus (ID ex_msg_broken) TaskStatusFailed (TaskStatusTTL (Config ex_deps))"
    by blast
  then have 5: "last (snd (CreateUserMessageHandler ex_env ex_deps ex_delivery_broken)) =
     Redis_SetTaskStatus ''t3'' TaskStatusFailed 3600"
    by (simp add: ex_broken_fields ex_deps_ttl)
  from 1 2 3 4 5 show ?thesis by blast
qed

end
